theory Spec2Isabelle
  imports Main "HOL-Library.Word" "HOL-Library.Sublist"
begin

unbundle bit_operations_syntax

section \<open>Safe.Env: encrypting one configuration file at rest\<close>

text \<open>
  The program is a Node.js script in two variants: \<^verbatim>\<open>src/encrypt_env.js\<close> and an
  otherwise unnamed second copy, \<^verbatim>\<open>src/unnamed/part_000\<close>. Both consist of the same
  functions (\<^verbatim>\<open>loadKey\<close>, \<^verbatim>\<open>saveKey\<close>, \<^verbatim>\<open>encryptFile\<close>, \<^verbatim>\<open>decryptFile\<close>,
  \<^verbatim>\<open>getGitUser\<close>, \<^verbatim>\<open>validateKey\<close>, \<^verbatim>\<open>updateMetadata\<close>, \<^verbatim>\<open>main\<close>). The embedding
  follows \<^verbatim>\<open>encrypt_env.js\<close> function by function; where the second copy differs in
  a way that matters below (\<^verbatim>\<open>saveKey\<close>, \<^verbatim>\<open>validateKey\<close>, \<^verbatim>\<open>decryptFile\<close>) it is
  embedded as well, under the same name with the suffix \<open>_part000\<close>.

  What lies outside the repository is modelled as follows.
  \<^item> The file system, the random source, the git configuration, the clock and the
    console are fields of a record \<open>world\<close>; every function of the script is a state
    transformer that returns either an error (a JavaScript exception) or a value,
    together with the new world. Every library call that touches the outside appends an
    event to \<open>trace\<close>, so that the order of effects can be stated.
  \<^item> A JavaScript string is represented by its UTF-8 encoding, a list of 8-bit
    characters. Reading a file with encoding \<^verbatim>\<open>"utf8"\<close> replaces every ill-formed
    byte sequence by U+FFFD (\<open>utf8_sanitize\<close>, the WHATWG decoder); writing a string
    stores its bytes.
  \<^item> \<^verbatim>\<open>JSON.stringify\<close> followed by \<^verbatim>\<open>JSON.parse\<close> is the identity on objects whose
    properties are strings: a file written from such an object holds \<open>Json obj\<close>, and
    \<^verbatim>\<open>JSON.parse\<close> of a file holding \<open>Text s\<close> throws. Property access on a parsed
    object yields \<open>None\<close> (\<^verbatim>\<open>undefined\<close>) for a missing property.
  \<^item> \<^verbatim>\<open>aes-256-cbc\<close> is CBC chaining with PKCS 7 padding over a block transformation.
    The functions of the script take the block transformation as a parameter \<open>E\<close>
    (encrypt one 16-byte block under a 32-byte key) with its inverse \<open>D\<close>; the
    script runs them with the block transformation of AES, \<open>aes256_encrypt_block\<close> and
    \<open>aes256_decrypt_block\<close>, written out below after FIPS 197. Statements that hold
    whatever the block transformation is are made for every pair that satisfies
    \<open>cipher_ok\<close>, which the AES pair does.
  \<^item> Failures of the operating system while writing (disk full, permission denied)
    are not modelled: \<open>writeFileSync\<close> and \<open>mkdirSync\<close> always succeed.
\<close>

subsection \<open>Bytes and hexadecimal text\<close>

type_synonym byte = "8 word"

definition byte_of_char :: "char \<Rightarrow> byte" where
  "byte_of_char c = of_nat (of_char c)"

definition char_of_byte :: "byte \<Rightarrow> char" where
  "char_of_byte b = char_of (unat b)"

definition hexdigit :: "nat \<Rightarrow> char" where
  "hexdigit n = ''0123456789abcdef'' ! n"

definition hex_of_byte :: "byte \<Rightarrow> string" where
  "hex_of_byte b = [hexdigit (unat b div 16), hexdigit (unat b mod 16)]"

text \<open>\<^verbatim>\<open>buf.toString("hex")\<close>: two lower-case digits per byte.\<close>

definition toHex :: "byte list \<Rightarrow> string" where
  "toHex bs = concat (map hex_of_byte bs)"

definition hexval :: "char \<Rightarrow> nat option" where
  "hexval c =
     (let n = (of_char c :: nat) in
      if 48 \<le> n \<and> n \<le> 57 then Some (n - 48)
      else if 97 \<le> n \<and> n \<le> 102 then Some (n - 87)
      else if 65 \<le> n \<and> n \<le> 70 then Some (n - 55)
      else None)"

text \<open>
  The UTF-16 code units of a string, from its UTF-8 bytes: one unit per sequence of
  one, two or three bytes, a surrogate pair for a sequence of four bytes. \<open>needed\<close>
  counts the continuation bytes still expected and \<open>acc\<close> holds the bits read so far.
\<close>

definition units_of_code_point :: "nat \<Rightarrow> nat list" where
  "units_of_code_point cp =
     (if cp < 65536 then [cp]
      else [55296 + (cp - 65536) div 1024, 56320 + (cp - 65536) mod 1024])"

fun utf16_decode :: "nat \<Rightarrow> nat \<Rightarrow> string \<Rightarrow> nat list" where
  "utf16_decode needed acc [] = []"
| "utf16_decode needed acc (c # cs) =
     (let b = (of_char c :: nat) in
      if b < 128 then b # utf16_decode 0 0 cs
      else if 240 \<le> b then utf16_decode 3 (b mod 8) cs
      else if 224 \<le> b then utf16_decode 2 (b mod 16) cs
      else if 192 \<le> b then utf16_decode 1 (b mod 32) cs
      else if needed \<le> 1 then units_of_code_point (acc * 64 + b mod 64) @ utf16_decode 0 0 cs
      else utf16_decode (needed - 1) (acc * 64 + b mod 64) cs)"

definition utf16_units :: "string \<Rightarrow> nat list" where
  "utf16_units s = utf16_decode 0 0 s"

text \<open>
  The hexadecimal decoder of Node (\<^verbatim>\<open>HexDecode\<close>), on the low bytes of the code units:
  pairs of digits are decoded from the left, and decoding stops silently at the first
  pair that is not two hexadecimal digits, or at a single trailing character.
\<close>

fun hex_decode :: "string \<Rightarrow> byte list" where
  "hex_decode (a # b # cs) =
     (case (hexval a, hexval b) of
        (Some x, Some y) \<Rightarrow> of_nat (16 * x + y) # hex_decode cs
      | _ \<Rightarrow> [])"
| "hex_decode _ = []"

text \<open>
  \<^verbatim>\<open>Buffer.from(s, "hex")\<close>, and the decoding of the argument of
  \<^verbatim>\<open>decipher.update(s, "hex", _)\<close>: the decoder reads one byte per UTF-16 code unit of
  the string, the low byte of the unit (so that U+0130 is read as the digit 0).
\<close>

definition fromHex :: "string \<Rightarrow> byte list" where
  "fromHex s = hex_decode (map char_of (utf16_units s))"

subsection \<open>UTF-8 text\<close>

definition REPLACEMENT :: string where
  "REPLACEMENT = [CHR 0xEF, CHR 0xBF, CHR 0xBD]"

text \<open>
  The UTF-8 decoder, on the representation of strings by their UTF-8 bytes: a
  well-formed sequence is passed through, every maximal ill-formed part becomes
  U+FFFD (bytes EF BF BD). \<open>needed\<close> counts the continuation bytes still expected,
  \<open>lower\<close> and \<open>upper\<close> bound the next byte, \<open>seen\<close> holds the bytes of the sequence
  read so far.
\<close>

fun utf8_decode :: "nat \<Rightarrow> nat \<Rightarrow> nat \<Rightarrow> string \<Rightarrow> string \<Rightarrow> string" where
  "utf8_decode needed lower upper seen [] = (if needed = 0 then [] else REPLACEMENT)"
| "utf8_decode needed lower upper seen (c # cs) =
     (let b = (of_char c :: nat) in
      if needed = 0 then
        if b \<le> 127 then c # utf8_decode 0 128 191 [] cs
        else if 194 \<le> b \<and> b \<le> 223 then utf8_decode 1 128 191 [c] cs
        else if 224 \<le> b \<and> b \<le> 239 then
          utf8_decode 2 (if b = 224 then 160 else 128) (if b = 237 then 159 else 191) [c] cs
        else if 240 \<le> b \<and> b \<le> 244 then
          utf8_decode 3 (if b = 240 then 144 else 128) (if b = 244 then 143 else 191) [c] cs
        else REPLACEMENT @ utf8_decode 0 128 191 [] cs
      else if b < lower \<or> upper < b then REPLACEMENT @ utf8_decode 0 128 191 [] (c # cs)
      else if needed = 1 then seen @ [c] @ utf8_decode 0 128 191 [] cs
      else utf8_decode (needed - 1) 128 191 (seen @ [c]) cs)"

definition utf8_sanitize :: "string \<Rightarrow> string" where
  "utf8_sanitize s = utf8_decode 0 128 191 [] s"

definition ascii :: "string \<Rightarrow> bool" where
  "ascii s = list_all (\<lambda>c. (of_char c :: nat) < 128) s"

text \<open>
  \<^verbatim>\<open>s.length\<close> counts UTF-16 code units: one per UTF-8 sequence, two for a four-byte
  sequence.
\<close>

definition js_length :: "string \<Rightarrow> nat" where
  "js_length s =
     length (filter (\<lambda>c. (of_char c :: nat) < 128 \<or> 192 \<le> (of_char c :: nat)) s)
     + length (filter (\<lambda>c. 240 \<le> (of_char c :: nat)) s)"

text \<open>
  \<^verbatim>\<open>s.split(d)\<close> for a one-character separator: the first segment and the list of the
  remaining ones (the result of \<^verbatim>\<open>split\<close> is never empty). \<^verbatim>\<open>parts.join(d)\<close> is
  \<open>join_with\<close>.
\<close>

fun split_on :: "char \<Rightarrow> string \<Rightarrow> string \<times> string list" where
  "split_on d [] = ([], [])"
| "split_on d (c # cs) =
     (case split_on d cs of
        (x, xs) \<Rightarrow> if c = d then ([], x # xs) else (c # x, xs))"

fun join_with :: "string \<Rightarrow> string list \<Rightarrow> string" where
  "join_with sep [] = []"
| "join_with sep [x] = x"
| "join_with sep (x # y # ys) = x @ sep @ join_with sep (y # ys)"

subsection \<open>The cipher: CBC with PKCS 7 padding over a block transformation\<close>

type_synonym block_cipher = "byte list \<Rightarrow> byte list \<Rightarrow> byte list"

definition xor_bytes :: "byte list \<Rightarrow> byte list \<Rightarrow> byte list" where
  "xor_bytes a b = map2 (XOR) a b"

fun cbc_encrypt :: "block_cipher \<Rightarrow> byte list \<Rightarrow> byte list \<Rightarrow> byte list \<Rightarrow> byte list" where
  "cbc_encrypt E k prev p =
     (if p = [] then []
      else let c = E k (xor_bytes (take 16 p) prev) in c @ cbc_encrypt E k c (drop 16 p))"

fun cbc_decrypt :: "block_cipher \<Rightarrow> byte list \<Rightarrow> byte list \<Rightarrow> byte list \<Rightarrow> byte list" where
  "cbc_decrypt D k prev c =
     (if c = [] then []
      else xor_bytes (D k (take 16 c)) prev @ cbc_decrypt D k (take 16 c) (drop 16 c))"

declare cbc_encrypt.simps [simp del] cbc_decrypt.simps [simp del]

definition pkcs7_pad :: "byte list \<Rightarrow> byte list" where
  "pkcs7_pad p = (let n = 16 - length p mod 16 in p @ replicate n (of_nat n))"

text \<open>
  The check of the final block: its last byte \<open>n\<close> must be in \<open>1..16\<close> and the last \<open>n\<close>
  bytes must all be \<open>n\<close>.
\<close>

definition pkcs7_unpad :: "byte list \<Rightarrow> byte list option" where
  "pkcs7_unpad d =
     (if d = [] then None
      else let n = unat (last d) in
        if n = 0 \<or> 16 < n \<or> length d < n then None
        else if drop (length d - n) d \<noteq> replicate n (last d) then None
        else Some (take (length d - n) d))"

text \<open>
  What is assumed of the block transformation where a statement needs it: on a 32-byte
  key and a 16-byte block, \<open>E\<close> yields a 16-byte block and \<open>D\<close> undoes it. AES-256 is
  such a pair.
\<close>

definition cipher_ok :: "block_cipher \<Rightarrow> block_cipher \<Rightarrow> bool" where
  "cipher_ok E D \<longleftrightarrow>
     (\<forall>k b. length k = 32 \<and> length b = 16 \<longrightarrow> length (E k b) = 16 \<and> D k (E k b) = b)"

subsection \<open>The block transformation: AES with a key of 256 bits\<close>

text \<open>
  The block transformation of \<^verbatim>\<open>aes-256-cbc\<close> is not part of the repository; it is
  written out here after FIPS 197, so that the statements below are about the cipher the
  script uses.
\<close>

text \<open>
  The S-box and its inverse, as the tables of the standard: row by the high four bits of
  the byte, column by the low four bits.
\<close>

definition sbox :: "byte list list" where
  "sbox =
    [[0x63, 0x7c, 0x77, 0x7b, 0xf2, 0x6b, 0x6f, 0xc5, 0x30, 0x01, 0x67, 0x2b, 0xfe, 0xd7, 0xab, 0x76],
     [0xca, 0x82, 0xc9, 0x7d, 0xfa, 0x59, 0x47, 0xf0, 0xad, 0xd4, 0xa2, 0xaf, 0x9c, 0xa4, 0x72, 0xc0],
     [0xb7, 0xfd, 0x93, 0x26, 0x36, 0x3f, 0xf7, 0xcc, 0x34, 0xa5, 0xe5, 0xf1, 0x71, 0xd8, 0x31, 0x15],
     [0x04, 0xc7, 0x23, 0xc3, 0x18, 0x96, 0x05, 0x9a, 0x07, 0x12, 0x80, 0xe2, 0xeb, 0x27, 0xb2, 0x75],
     [0x09, 0x83, 0x2c, 0x1a, 0x1b, 0x6e, 0x5a, 0xa0, 0x52, 0x3b, 0xd6, 0xb3, 0x29, 0xe3, 0x2f, 0x84],
     [0x53, 0xd1, 0x00, 0xed, 0x20, 0xfc, 0xb1, 0x5b, 0x6a, 0xcb, 0xbe, 0x39, 0x4a, 0x4c, 0x58, 0xcf],
     [0xd0, 0xef, 0xaa, 0xfb, 0x43, 0x4d, 0x33, 0x85, 0x45, 0xf9, 0x02, 0x7f, 0x50, 0x3c, 0x9f, 0xa8],
     [0x51, 0xa3, 0x40, 0x8f, 0x92, 0x9d, 0x38, 0xf5, 0xbc, 0xb6, 0xda, 0x21, 0x10, 0xff, 0xf3, 0xd2],
     [0xcd, 0x0c, 0x13, 0xec, 0x5f, 0x97, 0x44, 0x17, 0xc4, 0xa7, 0x7e, 0x3d, 0x64, 0x5d, 0x19, 0x73],
     [0x60, 0x81, 0x4f, 0xdc, 0x22, 0x2a, 0x90, 0x88, 0x46, 0xee, 0xb8, 0x14, 0xde, 0x5e, 0x0b, 0xdb],
     [0xe0, 0x32, 0x3a, 0x0a, 0x49, 0x06, 0x24, 0x5c, 0xc2, 0xd3, 0xac, 0x62, 0x91, 0x95, 0xe4, 0x79],
     [0xe7, 0xc8, 0x37, 0x6d, 0x8d, 0xd5, 0x4e, 0xa9, 0x6c, 0x56, 0xf4, 0xea, 0x65, 0x7a, 0xae, 0x08],
     [0xba, 0x78, 0x25, 0x2e, 0x1c, 0xa6, 0xb4, 0xc6, 0xe8, 0xdd, 0x74, 0x1f, 0x4b, 0xbd, 0x8b, 0x8a],
     [0x70, 0x3e, 0xb5, 0x66, 0x48, 0x03, 0xf6, 0x0e, 0x61, 0x35, 0x57, 0xb9, 0x86, 0xc1, 0x1d, 0x9e],
     [0xe1, 0xf8, 0x98, 0x11, 0x69, 0xd9, 0x8e, 0x94, 0x9b, 0x1e, 0x87, 0xe9, 0xce, 0x55, 0x28, 0xdf],
     [0x8c, 0xa1, 0x89, 0x0d, 0xbf, 0xe6, 0x42, 0x68, 0x41, 0x99, 0x2d, 0x0f, 0xb0, 0x54, 0xbb, 0x16]]"

definition inv_sbox :: "byte list list" where
  "inv_sbox =
    [[0x52, 0x09, 0x6a, 0xd5, 0x30, 0x36, 0xa5, 0x38, 0xbf, 0x40, 0xa3, 0x9e, 0x81, 0xf3, 0xd7, 0xfb],
     [0x7c, 0xe3, 0x39, 0x82, 0x9b, 0x2f, 0xff, 0x87, 0x34, 0x8e, 0x43, 0x44, 0xc4, 0xde, 0xe9, 0xcb],
     [0x54, 0x7b, 0x94, 0x32, 0xa6, 0xc2, 0x23, 0x3d, 0xee, 0x4c, 0x95, 0x0b, 0x42, 0xfa, 0xc3, 0x4e],
     [0x08, 0x2e, 0xa1, 0x66, 0x28, 0xd9, 0x24, 0xb2, 0x76, 0x5b, 0xa2, 0x49, 0x6d, 0x8b, 0xd1, 0x25],
     [0x72, 0xf8, 0xf6, 0x64, 0x86, 0x68, 0x98, 0x16, 0xd4, 0xa4, 0x5c, 0xcc, 0x5d, 0x65, 0xb6, 0x92],
     [0x6c, 0x70, 0x48, 0x50, 0xfd, 0xed, 0xb9, 0xda, 0x5e, 0x15, 0x46, 0x57, 0xa7, 0x8d, 0x9d, 0x84],
     [0x90, 0xd8, 0xab, 0x00, 0x8c, 0xbc, 0xd3, 0x0a, 0xf7, 0xe4, 0x58, 0x05, 0xb8, 0xb3, 0x45, 0x06],
     [0xd0, 0x2c, 0x1e, 0x8f, 0xca, 0x3f, 0x0f, 0x02, 0xc1, 0xaf, 0xbd, 0x03, 0x01, 0x13, 0x8a, 0x6b],
     [0x3a, 0x91, 0x11, 0x41, 0x4f, 0x67, 0xdc, 0xea, 0x97, 0xf2, 0xcf, 0xce, 0xf0, 0xb4, 0xe6, 0x73],
     [0x96, 0xac, 0x74, 0x22, 0xe7, 0xad, 0x35, 0x85, 0xe2, 0xf9, 0x37, 0xe8, 0x1c, 0x75, 0xdf, 0x6e],
     [0x47, 0xf1, 0x1a, 0x71, 0x1d, 0x29, 0xc5, 0x89, 0x6f, 0xb7, 0x62, 0x0e, 0xaa, 0x18, 0xbe, 0x1b],
     [0xfc, 0x56, 0x3e, 0x4b, 0xc6, 0xd2, 0x79, 0x20, 0x9a, 0xdb, 0xc0, 0xfe, 0x78, 0xcd, 0x5a, 0xf4],
     [0x1f, 0xdd, 0xa8, 0x33, 0x88, 0x07, 0xc7, 0x31, 0xb1, 0x12, 0x10, 0x59, 0x27, 0x80, 0xec, 0x5f],
     [0x60, 0x51, 0x7f, 0xa9, 0x19, 0xb5, 0x4a, 0x0d, 0x2d, 0xe5, 0x7a, 0x9f, 0x93, 0xc9, 0x9c, 0xef],
     [0xa0, 0xe0, 0x3b, 0x4d, 0xae, 0x2a, 0xf5, 0xb0, 0xc8, 0xeb, 0xbb, 0x3c, 0x83, 0x53, 0x99, 0x61],
     [0x17, 0x2b, 0x04, 0x7e, 0xba, 0x77, 0xd6, 0x26, 0xe1, 0x69, 0x14, 0x63, 0x55, 0x21, 0x0c, 0x7d]]"

definition sub_byte :: "byte \<Rightarrow> byte" where
  "sub_byte x = sbox ! (unat x div 16) ! (unat x mod 16)"

definition inv_sub_byte :: "byte \<Rightarrow> byte" where
  "inv_sub_byte x = inv_sbox ! (unat x div 16) ! (unat x mod 16)"

text \<open>
  Multiplication in the field of 256 elements by the constants that \<open>MixColumns\<close> and
  its inverse need; \<open>xtime\<close> is multiplication by 2.
\<close>

definition xtime :: "byte \<Rightarrow> byte" where
  "xtime x = push_bit 1 x XOR (if bit x 7 then 0x1b else 0)"

definition gm3 :: "byte \<Rightarrow> byte" where
  "gm3 x = xtime x XOR x"

definition gm9 :: "byte \<Rightarrow> byte" where
  "gm9 x = xtime (xtime (xtime x)) XOR x"

definition gm11 :: "byte \<Rightarrow> byte" where
  "gm11 x = xtime (xtime (xtime x)) XOR xtime x XOR x"

definition gm13 :: "byte \<Rightarrow> byte" where
  "gm13 x = xtime (xtime (xtime x)) XOR xtime (xtime x) XOR x"

definition gm14 :: "byte \<Rightarrow> byte" where
  "gm14 x = xtime (xtime (xtime x)) XOR xtime (xtime x) XOR xtime x"

definition mix4 :: "byte \<Rightarrow> byte \<Rightarrow> byte \<Rightarrow> byte \<Rightarrow> byte list" where
  "mix4 a b c d =
     [xtime a XOR gm3 b XOR c XOR d,
      a XOR xtime b XOR gm3 c XOR d,
      a XOR b XOR xtime c XOR gm3 d,
      gm3 a XOR b XOR c XOR xtime d]"

definition inv_mix4 :: "byte \<Rightarrow> byte \<Rightarrow> byte \<Rightarrow> byte \<Rightarrow> byte list" where
  "inv_mix4 a b c d =
     [gm14 a XOR gm11 b XOR gm13 c XOR gm9 d,
      gm9 a XOR gm14 b XOR gm11 c XOR gm13 d,
      gm13 a XOR gm9 b XOR gm14 c XOR gm11 d,
      gm11 a XOR gm13 b XOR gm9 c XOR gm14 d]"

text \<open>
  The state is a list of 16 bytes, column by column: the byte in row \<open>r\<close> and column
  \<open>c\<close> is at index \<open>r + 4 * c\<close>.
\<close>

definition sub_bytes :: "byte list \<Rightarrow> byte list" where
  "sub_bytes s = map sub_byte s"

definition inv_sub_bytes :: "byte list \<Rightarrow> byte list" where
  "inv_sub_bytes s = map inv_sub_byte s"

definition shift_rows :: "byte list \<Rightarrow> byte list" where
  "shift_rows s = map (nth s) [0, 5, 10, 15, 4, 9, 14, 3, 8, 13, 2, 7, 12, 1, 6, 11]"

definition inv_shift_rows :: "byte list \<Rightarrow> byte list" where
  "inv_shift_rows s = map (nth s) [0, 13, 10, 7, 4, 1, 14, 11, 8, 5, 2, 15, 12, 9, 6, 3]"

definition mix_columns :: "byte list \<Rightarrow> byte list" where
  "mix_columns s =
     concat (map (\<lambda>c. mix4 (s ! (4 * c)) (s ! (4 * c + 1)) (s ! (4 * c + 2)) (s ! (4 * c + 3)))
               [0, 1, 2, 3])"

definition inv_mix_columns :: "byte list \<Rightarrow> byte list" where
  "inv_mix_columns s =
     concat (map (\<lambda>c. inv_mix4 (s ! (4 * c)) (s ! (4 * c + 1)) (s ! (4 * c + 2)) (s ! (4 * c + 3)))
               [0, 1, 2, 3])"

text \<open>
  The key schedule for a key of 8 words and 14 rounds: 60 words, of which the round key
  \<open>r\<close> is the four words from \<open>4 * r\<close> on.
\<close>

type_synonym word4 = "byte \<times> byte \<times> byte \<times> byte"

fun xor4 :: "word4 \<Rightarrow> word4 \<Rightarrow> word4" where
  "xor4 (a, b, c, d) (e, f, g, h) = (a XOR e, b XOR f, c XOR g, d XOR h)"

fun sub_word :: "word4 \<Rightarrow> word4" where
  "sub_word (a, b, c, d) = (sub_byte a, sub_byte b, sub_byte c, sub_byte d)"

fun rot_word :: "word4 \<Rightarrow> word4" where
  "rot_word (a, b, c, d) = (b, c, d, a)"

definition rcon :: "nat \<Rightarrow> word4" where
  "rcon j = ([0x01, 0x02, 0x04, 0x08, 0x10, 0x20, 0x40] ! (j - 1), 0, 0, 0)"

definition schedule_core :: "nat \<Rightarrow> word4 \<Rightarrow> word4" where
  "schedule_core i temp =
     (if i mod 8 = 0 then xor4 (sub_word (rot_word temp)) (rcon (i div 8))
      else if i mod 8 = 4 then sub_word temp
      else temp)"

definition next_word :: "nat \<Rightarrow> word4 list \<Rightarrow> word4" where
  "next_word i ws = xor4 (ws ! (i - 8)) (schedule_core i (ws ! (i - 1)))"

definition key_words :: "byte list \<Rightarrow> word4 list" where
  "key_words k = map (\<lambda>i. (k ! (4 * i), k ! (4 * i + 1), k ! (4 * i + 2), k ! (4 * i + 3))) [0..<8]"

definition key_expansion :: "byte list \<Rightarrow> word4 list" where
  "key_expansion k = fold (\<lambda>i ws. ws @ [next_word i ws]) [8..<60] (key_words k)"

fun bytes_of_word4 :: "word4 \<Rightarrow> byte list" where
  "bytes_of_word4 (a, b, c, d) = [a, b, c, d]"

definition round_key :: "word4 list \<Rightarrow> nat \<Rightarrow> byte list" where
  "round_key ws r =
     concat (map bytes_of_word4 [ws ! (4 * r), ws ! (4 * r + 1), ws ! (4 * r + 2), ws ! (4 * r + 3)])"

text \<open>
  The cipher: an initial round key, 13 full rounds, and a final round without
  \<open>MixColumns\<close>.
\<close>

definition aes_round :: "word4 list \<Rightarrow> nat \<Rightarrow> byte list \<Rightarrow> byte list" where
  "aes_round ws r s = xor_bytes (mix_columns (shift_rows (sub_bytes s))) (round_key ws r)"

definition inv_aes_round :: "word4 list \<Rightarrow> nat \<Rightarrow> byte list \<Rightarrow> byte list" where
  "inv_aes_round ws r s = inv_sub_bytes (inv_shift_rows (inv_mix_columns (xor_bytes s (round_key ws r))))"

definition encrypt_rounds :: "word4 list \<Rightarrow> byte list \<Rightarrow> byte list" where
  "encrypt_rounds ws b =
     xor_bytes (shift_rows (sub_bytes (fold (aes_round ws) [1..<14] (xor_bytes b (round_key ws 0)))))
       (round_key ws 14)"

definition decrypt_rounds :: "word4 list \<Rightarrow> byte list \<Rightarrow> byte list" where
  "decrypt_rounds ws c =
     xor_bytes (fold (inv_aes_round ws) (rev [1..<14])
                  (inv_sub_bytes (inv_shift_rows (xor_bytes c (round_key ws 14)))))
       (round_key ws 0)"

definition aes256_encrypt_block :: block_cipher where
  "aes256_encrypt_block k b = encrypt_rounds (key_expansion k) b"

definition aes256_decrypt_block :: block_cipher where
  "aes256_decrypt_block k c = decrypt_rounds (key_expansion k) c"

text \<open>
  The coefficients of the product of the matrix of \<open>InvMixColumns\<close> with the matrix of
  \<open>MixColumns\<close>, as functions of a byte.
\<close>

definition coeff1 :: "byte \<Rightarrow> byte" where
  "coeff1 x = gm14 (xtime x) XOR gm11 x XOR gm13 x XOR gm9 (gm3 x)"

definition coeff2 :: "byte \<Rightarrow> byte" where
  "coeff2 x = gm14 (gm3 x) XOR gm11 (xtime x) XOR gm13 x XOR gm9 x"

definition coeff3 :: "byte \<Rightarrow> byte" where
  "coeff3 x = gm14 x XOR gm11 (gm3 x) XOR gm13 (xtime x) XOR gm9 x"

definition coeff4 :: "byte \<Rightarrow> byte" where
  "coeff4 x = gm14 x XOR gm11 x XOR gm13 (gm3 x) XOR gm9 (xtime x)"

subsection \<open>Paths, errors and the world outside the script\<close>

text \<open>
  A path is a list of components, absolute or relative to the working directory.
  \<^verbatim>\<open>path.join\<close> appends a component, \<^verbatim>\<open>path.dirname\<close> removes the last one.
\<close>

datatype path = Abs "string list" | Rel "string list"

fun path_string :: "path \<Rightarrow> string" where
  "path_string (Abs cs) = ''/'' @ join_with ''/'' cs"
| "path_string (Rel cs) = join_with ''/'' cs"

fun dirname :: "path \<Rightarrow> path" where
  "dirname (Abs cs) = Abs (butlast cs)"
| "dirname (Rel cs) = Rel (butlast cs)"

fun path_join :: "path \<Rightarrow> string \<Rightarrow> path" where
  "path_join (Abs cs) name = Abs (cs @ [name])"
| "path_join (Rel cs) name = Rel (cs @ [name])"

text \<open>A directory and all the directories above it.\<close>

fun ancestors :: "path \<Rightarrow> path list" where
  "ancestors (Abs cs) = map Abs (prefixes cs)"
| "ancestors (Rel cs) = map Rel (prefixes cs)"

text \<open>
  \<open>Error m\<close> is \<^verbatim>\<open>throw new Error(m)\<close> of the script itself; the other constructors
  are the exceptions of the library calls it makes.
\<close>

datatype error =
    Error string
  | ENOENT path
  | SyntaxError
  | TypeError
  | InvalidIV
  | InvalidKeyLength
  | InvalidHexLength
  | WrongFinalBlockLength
  | BadDecrypt

type_synonym jsobject = "(string \<times> string) list"

datatype fdata = Text string | Json jsobject

record file_entry =
  content :: fdata
  mode :: "32 word"

datatype event =
    EvExists path
  | EvRead path
  | EvWrite path fdata
  | EvMkdir path
  | EvRandom nat
  | EvCipher
  | EvDecipher
  | EvGit string
  | EvLog string
  | EvError string

text \<open>
  \<open>git_config k\<close> is the trimmed output of \<^verbatim>\<open>git config k\<close>, or \<open>None\<close> when the
  command fails; \<open>entropy\<close> is the stream of bytes \<^verbatim>\<open>crypto.randomBytes\<close> draws from
  and \<open>drawn\<close> the number of bytes drawn so far; \<open>clock\<close> is the current time in ISO
  format.
\<close>

record world =
  cwd :: "string list"
  homedir :: "string list"
  umask :: "32 word"
  dirs :: "path list"
  files :: "path \<Rightarrow> file_entry option"
  git_config :: "string \<Rightarrow> string option"
  clock :: string
  entropy :: "nat \<Rightarrow> byte"
  drawn :: nat
  trace :: "event list"

type_synonym 'a io = "world \<Rightarrow> (error + 'a) \<times> world"

definition io_return :: "'a \<Rightarrow> 'a io" where
  "io_return x w = (Inr x, w)"

definition io_throw :: "error \<Rightarrow> 'a io" where
  "io_throw e w = (Inl e, w)"

definition io_lift :: "error + 'a \<Rightarrow> 'a io" where
  "io_lift r w = (r, w)"

text \<open>Sequencing: an exception of the first computation skips the second.\<close>

definition io_bind :: "'a io \<Rightarrow> ('a \<Rightarrow> 'b io) \<Rightarrow> 'b io" where
  "io_bind m k w = (case m w of (Inl e, w') \<Rightarrow> (Inl e, w') | (Inr x, w') \<Rightarrow> k x w')"

definition emit :: "event \<Rightarrow> world \<Rightarrow> world" where
  "emit ev w = w\<lparr>trace := trace w @ [ev]\<rparr>"

subsection \<open>Library calls\<close>

definition json_escape :: "char \<Rightarrow> string" where
  "json_escape c =
     (let n = (of_char c :: nat) in
      if n = 34 then [CHR 0x5C, CHR 0x22]
      else if n = 92 then [CHR 0x5C, CHR 0x5C]
      else if n = 8 then [CHR 0x5C, CHR ''b'']
      else if n = 12 then [CHR 0x5C, CHR ''f'']
      else if n = 10 then [CHR 0x5C, CHR ''n'']
      else if n = 13 then [CHR 0x5C, CHR ''r'']
      else if n = 9 then [CHR 0x5C, CHR ''t'']
      else if n < 32 then [CHR 0x5C, CHR ''u'', CHR ''0'', CHR ''0''] @ hex_of_byte (of_nat n)
      else [c])"

definition json_quote :: "string \<Rightarrow> string" where
  "json_quote s = [CHR 0x22] @ concat (map json_escape s) @ [CHR 0x22]"

text \<open>\<^verbatim>\<open>JSON.stringify(obj, null, 4)\<close> on an object with string properties.\<close>

definition JSON_stringify :: "jsobject \<Rightarrow> string" where
  "JSON_stringify obj =
     (if obj = [] then ''{}''
      else ''{'' @ [CHR 0x0A]
         @ join_with ('','' @ [CHR 0x0A])
             (map (\<lambda>(k, v). ''    '' @ json_quote k @ '': '' @ json_quote v) obj)
         @ [CHR 0x0A] @ ''}'')"

fun bytes_of :: "fdata \<Rightarrow> string" where
  "bytes_of (Text s) = s"
| "bytes_of (Json obj) = JSON_stringify obj"

definition existsSync :: "path \<Rightarrow> bool io" where
  "existsSync p w = (Inr (files w p \<noteq> None), emit (EvExists p) w)"

text \<open>\<^verbatim>\<open>fs.readFileSync(p, "utf8")\<close>.\<close>

definition readFileSync :: "path \<Rightarrow> string io" where
  "readFileSync p w =
     (case files w p of
        None \<Rightarrow> (Inl (ENOENT p), emit (EvRead p) w)
      | Some f \<Rightarrow> (Inr (utf8_sanitize (bytes_of (content f))), emit (EvRead p) w))"

text \<open>\<^verbatim>\<open>JSON.parse(fs.readFileSync(p, "utf8"))\<close>.\<close>

definition readJSON :: "path \<Rightarrow> jsobject io" where
  "readJSON p w =
     (case files w p of
        None \<Rightarrow> (Inl (ENOENT p), emit (EvRead p) w)
      | Some f \<Rightarrow>
          (case content f of
             Json obj \<Rightarrow> (Inr obj, emit (EvRead p) w)
           | Text s \<Rightarrow> (Inl SyntaxError, emit (EvRead p) w)))"

text \<open>
  \<^verbatim>\<open>fs.writeFileSync(p, d, { mode: m })\<close>: the mode (less the bits of the process's
  umask) is given to a file that the call creates; a file that exists keeps its mode and
  has its content replaced. Without the option the mode is \<^verbatim>\<open>0o666\<close>, that is 438.
\<close>

definition write_entry :: "file_entry option \<Rightarrow> fdata \<Rightarrow> 32 word \<Rightarrow> 32 word \<Rightarrow> file_entry" where
  "write_entry existing d m u =
     (case existing of
        None \<Rightarrow> \<lparr>content = d, mode = m AND NOT u\<rparr>
      | Some old \<Rightarrow> old\<lparr>content := d\<rparr>)"

definition writeFileSync :: "path \<Rightarrow> fdata \<Rightarrow> 32 word \<Rightarrow> unit io" where
  "writeFileSync p d m w =
     (Inr (), emit (EvWrite p d)
        (w\<lparr>files := (files w)(p \<mapsto> write_entry (files w p) d m (umask w))\<rparr>))"

text \<open>\<^verbatim>\<open>fs.mkdirSync(p, { recursive: true })\<close>.\<close>

definition mkdirSync_recursive :: "path \<Rightarrow> unit io" where
  "mkdirSync_recursive p w =
     (Inr (), emit (EvMkdir p)
        (w\<lparr>dirs := dirs w @ filter (\<lambda>d. d \<notin> set (dirs w)) (ancestors p)\<rparr>))"

definition randomBytes :: "nat \<Rightarrow> byte list io" where
  "randomBytes n w =
     (Inr (map (entropy w) [drawn w ..< drawn w + n]),
      emit (EvRandom n) (w\<lparr>drawn := drawn w + n\<rparr>))"

text \<open>\<^verbatim>\<open>execSync("git config " + k).toString().trim()\<close>.\<close>

definition execSync_git_config :: "string \<Rightarrow> string io" where
  "execSync_git_config k w =
     (case git_config w k of
        None \<Rightarrow> (Inl (Error (''Command failed: git config '' @ k)), emit (EvGit k) w)
      | Some out \<Rightarrow> (Inr out, emit (EvGit k) w))"

definition toISOString_now :: "string io" where
  "toISOString_now w = (Inr (clock w), w)"

definition console_log :: "string \<Rightarrow> unit io" where
  "console_log s w = (Inr (), emit (EvLog s) w)"

definition console_error :: "string \<Rightarrow> unit io" where
  "console_error s w = (Inr (), emit (EvError s) w)"

text \<open>\<^verbatim>\<open>Buffer.from(s, "hex")\<close>, where \<open>s\<close> may be \<^verbatim>\<open>undefined\<close>.\<close>

definition Buffer_from_hex :: "string option \<Rightarrow> error + byte list" where
  "Buffer_from_hex s = (case s of None \<Rightarrow> Inl TypeError | Some h \<Rightarrow> Inr (fromHex h))"

text \<open>
  \<^verbatim>\<open>crypto.createCipheriv("aes-256-cbc", k, iv)\<close> and \<^verbatim>\<open>createDecipheriv\<close> reject an
  initialisation vector that is not 16 bytes and a key that is not 32 bytes; the cipher
  object they return is the pair of key and vector.
\<close>

definition check_key_iv :: "byte list \<Rightarrow> byte list \<Rightarrow> error + (byte list \<times> byte list)" where
  "check_key_iv k iv =
     (if length iv \<noteq> 16 then Inl InvalidIV
      else if length k \<noteq> 32 then Inl InvalidKeyLength
      else Inr (k, iv))"

definition createCipheriv :: "byte list \<Rightarrow> byte list \<Rightarrow> (byte list \<times> byte list) io" where
  "createCipheriv k iv w = (check_key_iv k iv, emit EvCipher w)"

definition createDecipheriv :: "byte list \<Rightarrow> byte list \<Rightarrow> (byte list \<times> byte list) io" where
  "createDecipheriv k iv w = (check_key_iv k iv, emit EvDecipher w)"

text \<open>\<^verbatim>\<open>cipher.update(data, "utf8", "hex") + cipher.final("hex")\<close>.\<close>

definition cipher_update_final :: "block_cipher \<Rightarrow> byte list \<times> byte list \<Rightarrow> string \<Rightarrow> string" where
  "cipher_update_final E c data =
     toHex (cbc_encrypt E (fst c) (snd c) (pkcs7_pad (map byte_of_char data)))"

text \<open>
  \<^verbatim>\<open>decipher.update(t, "hex", "utf8") + decipher.final("utf8")\<close>: \<open>update\<close> rejects
  an argument that is not a string and hexadecimal text of odd length, \<open>final\<close> rejects
  a ciphertext that is empty or not a whole number of blocks, and a final block whose
  padding is wrong; the bytes obtained are decoded as UTF-8.
\<close>

definition decipher_update_final ::
    "block_cipher \<Rightarrow> byte list \<times> byte list \<Rightarrow> string option \<Rightarrow> error + string" where
  "decipher_update_final D c enc =
     (case enc of
        None \<Rightarrow> Inl TypeError
      | Some t \<Rightarrow>
          if odd (js_length t) then Inl InvalidHexLength
          else let ct = fromHex t in
            if ct = [] \<or> length ct mod 16 \<noteq> 0 then Inl WrongFinalBlockLength
            else (case pkcs7_unpad (cbc_decrypt D (fst c) (snd c) ct) of
                    None \<Rightarrow> Inl BadDecrypt
                  | Some p \<Rightarrow> Inr (utf8_sanitize (map char_of_byte p))))"

subsection \<open>The script \<^verbatim>\<open>encrypt_env.js\<close>\<close>

definition getProjectName :: "world \<Rightarrow> string" where
  "getProjectName w = (if cwd w = [] then [] else last (cwd w))"

definition getKeyDirectory :: "string \<Rightarrow> world \<Rightarrow> path" where
  "getKeyDirectory projectName w =
     Abs (homedir w @ [''.env_keys''] @ (if projectName = [] then [] else [projectName]))"

definition loadKey :: "path \<Rightarrow> jsobject io" where
  "loadKey keyPath =
     io_bind (existsSync keyPath) (\<lambda>ex.
       if \<not> ex then
         io_throw (Error ''Encryption key not found. Please ensure the key is present.'')
       else readJSON keyPath)"

text \<open>The mode \<^verbatim>\<open>0o600\<close> is 384.\<close>

definition saveKey :: "jsobject \<Rightarrow> path \<Rightarrow> unit io" where
  "saveKey keyData keyPath =
     io_bind (mkdirSync_recursive (dirname keyPath)) (\<lambda>_.
       writeFileSync keyPath (Json keyData) 384)"

definition generateValidationToken :: "string io" where
  "generateValidationToken = io_bind (randomBytes 16) (\<lambda>bs. io_return (toHex bs))"

definition encryptFile :: "block_cipher \<Rightarrow> path \<Rightarrow> string option \<Rightarrow> unit io" where
  "encryptFile E filePath key =
     io_bind (existsSync filePath) (\<lambda>ex.
       if \<not> ex then
         io_throw (Error (path_string filePath
                          @ '' does not exist. Please create the file and try again.''))
       else
         io_bind (readFileSync filePath) (\<lambda>data.
         io_bind (randomBytes 16) (\<lambda>iv.
         io_bind (io_lift (Buffer_from_hex key)) (\<lambda>keybuf.
         io_bind (createCipheriv keybuf iv) (\<lambda>cipher.
           let encrypted = cipher_update_final E cipher data;
               result = toHex iv @ '':'' @ encrypted
           in writeFileSync filePath (Text result) 384)))))"

text \<open>
  The text that \<open>encryptFile\<close> writes for the data \<open>data\<close>, the key bytes \<open>kb\<close> and
  the initialisation vector \<open>iv\<close>; and the \<open>n\<close> bytes that the random source yields
  after \<open>off\<close> further bytes have been drawn.
\<close>

definition envelope :: "block_cipher \<Rightarrow> byte list \<Rightarrow> byte list \<Rightarrow> string \<Rightarrow> string" where
  "envelope E kb iv data = toHex iv @ '':'' @ cipher_update_final E (kb, iv) data"

definition rand :: "world \<Rightarrow> nat \<Rightarrow> nat \<Rightarrow> byte list" where
  "rand w off n = map (entropy w) [drawn w + off ..< drawn w + off + n]"

text \<open>
  \<^verbatim>\<open>const [ivHex, encryptedText] = data.split(":")\<close>: the first two segments; the
  second is \<^verbatim>\<open>undefined\<close> when there is no separator, and the segments after the second
  are dropped.
\<close>

definition split_envelope :: "string \<Rightarrow> string \<times> string option" where
  "split_envelope data =
     (case split_on CHR '':'' data of
        (ivHex, []) \<Rightarrow> (ivHex, None)
      | (ivHex, encryptedText # _) \<Rightarrow> (ivHex, Some encryptedText))"

definition decryptFile :: "block_cipher \<Rightarrow> path \<Rightarrow> string option \<Rightarrow> unit io" where
  "decryptFile D filePath key =
     io_bind (existsSync filePath) (\<lambda>ex.
       if \<not> ex then
         io_throw (Error (path_string filePath @ '' does not exist. Cannot decrypt.''))
       else
         io_bind (readFileSync filePath) (\<lambda>data.
           case split_envelope data of (ivHex, encryptedText) \<Rightarrow>
             let iv = fromHex ivHex in
             io_bind (io_lift (Buffer_from_hex key)) (\<lambda>keybuf.
             io_bind (createDecipheriv keybuf iv) (\<lambda>decipher.
             io_bind (io_lift (decipher_update_final D decipher encryptedText)) (\<lambda>decrypted.
               writeFileSync filePath (Text decrypted) 384)))))"

definition git_error :: error where
  "git_error =
     Error ''Git is not configured properly. Please set up git with your username and email.''"

definition getGitUser :: "string io" where
  "getGitUser w =
     (case execSync_git_config ''user.name'' w of
        (Inl e, w1) \<Rightarrow> (Inl git_error, w1)
      | (Inr username, w1) \<Rightarrow>
          (case execSync_git_config ''user.email'' w1 of
             (Inl e, w2) \<Rightarrow> (Inl git_error, w2)
           | (Inr email, w2) \<Rightarrow> (Inr (username @ '' <'' @ email @ ''>''), w2)))"

text \<open>A property inside a template literal: \<^verbatim>\<open>undefined\<close> prints as that word.\<close>

definition js_show :: "string option \<Rightarrow> string" where
  "js_show v = (case v of None \<Rightarrow> ''undefined'' | Some s \<Rightarrow> s)"

definition validateKey :: "jsobject \<Rightarrow> jsobject \<Rightarrow> unit io" where
  "validateKey keyData metadata =
     (if map_of keyData ''validation_token'' \<noteq> map_of metadata ''validation_token'' then
        io_throw (Error (''Validation failed. The key used is not compatible with the metadata. Last encrypted by: ''
                         @ js_show (map_of metadata ''last_encrypted_by'')
                         @ '' at '' @ js_show (map_of metadata ''timestamp'')))
      else io_return ())"

text \<open>A property whose value is \<^verbatim>\<open>undefined\<close> is left out by \<^verbatim>\<open>JSON.stringify\<close>.\<close>

definition property :: "string \<Rightarrow> string option \<Rightarrow> jsobject" where
  "property k v = (case v of None \<Rightarrow> [] | Some s \<Rightarrow> [(k, s)])"

definition updateMetadata :: "path \<Rightarrow> bool \<Rightarrow> unit io" where
  "updateMetadata keyPath rotated =
     io_bind (loadKey keyPath) (\<lambda>keyData.
     io_bind getGitUser (\<lambda>user.
     io_bind toISOString_now (\<lambda>now.
       let metadata =
             [(''last_encrypted_by'', user),
              (''key_path'', path_string keyPath),
              (''key_status'', if rotated then ''rotated'' else ''stable'')]
             @ property ''validation_token'' (map_of keyData ''validation_token'')
             @ [(''timestamp'', now)]
       in writeFileSync (Rel [''.env.encrypt'']) (Json metadata) 384)))"

definition keyPath_of :: "world \<Rightarrow> path" where
  "keyPath_of w = path_join (getKeyDirectory (getProjectName w) w) ''env_key.json''"

definition envFilePath :: path where
  "envFilePath = Rel [''.env'']"

definition metadataFilePath :: path where
  "metadataFilePath = Rel [''.env.encrypt'']"

text \<open>The three branches of the \<^verbatim>\<open>try\<close> block of \<^verbatim>\<open>main\<close>.\<close>

definition main_encrypt :: "block_cipher \<Rightarrow> path \<Rightarrow> unit io" where
  "main_encrypt E keyPath =
     io_bind
       (io_bind (existsSync keyPath) (\<lambda>ex.
          if \<not> ex then
            io_bind generateValidationToken (\<lambda>validationToken.
            io_bind (randomBytes 32) (\<lambda>kb.
              let key = toHex kb;
                  keyData = [(''key'', key), (''validation_token'', validationToken)]
              in io_bind (saveKey keyData keyPath) (\<lambda>_. io_return keyData)))
          else loadKey keyPath))
       (\<lambda>keyData.
          io_bind (encryptFile E envFilePath (map_of keyData ''key'')) (\<lambda>_.
          io_bind (updateMetadata keyPath False) (\<lambda>_.
            console_log ''File encrypted and metadata saved.'')))"

definition main_decrypt :: "block_cipher \<Rightarrow> path \<Rightarrow> unit io" where
  "main_decrypt D keyPath =
     io_bind (loadKey keyPath) (\<lambda>keyData.
     io_bind (readJSON metadataFilePath) (\<lambda>metadata.
     io_bind (validateKey keyData metadata) (\<lambda>_.
     io_bind (decryptFile D envFilePath (map_of keyData ''key'')) (\<lambda>_.
       console_log ''File decrypted.''))))"

definition main_rotate :: "block_cipher \<Rightarrow> path \<Rightarrow> unit io" where
  "main_rotate E keyPath =
     io_bind (randomBytes 32) (\<lambda>kb.
       let newKey = toHex kb in
       io_bind generateValidationToken (\<lambda>validationToken.
         let keyData = [(''key'', newKey), (''validation_token'', validationToken)] in
         io_bind (saveKey keyData keyPath) (\<lambda>_.
         io_bind (encryptFile E envFilePath (Some newKey)) (\<lambda>_.
         io_bind (updateMetadata keyPath True) (\<lambda>_.
           console_log ''Encryption key rotated, file re-encrypted, and metadata updated.'')))))"

definition main_try :: "block_cipher \<Rightarrow> block_cipher \<Rightarrow> string \<Rightarrow> unit io" where
  "main_try E D action w =
     (let keyPath = keyPath_of w in
      if action = ''encrypt'' then main_encrypt E keyPath w
      else if action = ''decrypt'' then main_decrypt D keyPath w
      else if action = ''rotate'' then main_rotate E keyPath w
      else (Inr (), w))"

fun message :: "error \<Rightarrow> string" where
  "message (Error m) = m"
| "message (ENOENT p) = ''ENOENT: no such file or directory, open '' @ path_string p"
| "message SyntaxError = ''Unexpected token in JSON''"
| "message TypeError = ''The argument must be of type string''"
| "message InvalidIV = ''Invalid initialization vector''"
| "message InvalidKeyLength = ''Invalid key length''"
| "message InvalidHexLength = ''The argument encoding is invalid for data of odd length''"
| "message WrongFinalBlockLength = ''wrong final block length''"
| "message BadDecrypt = ''bad decrypt''"

text \<open>
  One run of the script: \<open>args\<close> are the command-line arguments after the script's
  name. An exception of the \<^verbatim>\<open>try\<close> block is caught and its message printed.
\<close>

definition main :: "block_cipher \<Rightarrow> block_cipher \<Rightarrow> string list \<Rightarrow> world \<Rightarrow> world" where
  "main E D args w =
     (if args = [] \<or> hd args \<notin> set [''encrypt'', ''decrypt'', ''rotate''] then
        snd (console_log ''Usage: node encrypt_env.js [encrypt|decrypt|rotate]'' w)
      else
        (case main_try E D (hd args) w of
           (Inl e, w') \<Rightarrow> snd (console_error (message e) w')
         | (Inr _, w') \<Rightarrow> w'))"

subsection \<open>The functions of the second copy that differ\<close>

text \<open>\<^verbatim>\<open>saveKey\<close> of the second copy passes no mode.\<close>

definition saveKey_part000 :: "jsobject \<Rightarrow> path \<Rightarrow> unit io" where
  "saveKey_part000 keyData keyPath =
     io_bind (mkdirSync_recursive (dirname keyPath)) (\<lambda>_.
       writeFileSync keyPath (Json keyData) 438)"

definition validateKey_part000 :: "jsobject \<Rightarrow> jsobject \<Rightarrow> unit io" where
  "validateKey_part000 keyData metadata =
     (if map_of keyData ''validation_token'' \<noteq> map_of metadata ''validation_token'' then
        io_throw (Error ''The encryption key is not compatible with the current .env file.'')
      else io_return ())"

text \<open>
  \<^verbatim>\<open>const parts = data.split(":"); parts.shift(); parts.join(":")\<close>: the first segment,
  and the remaining segments joined again.
\<close>

definition split_envelope_part000 :: "string \<Rightarrow> string \<times> string" where
  "split_envelope_part000 data =
     (case split_on CHR '':'' data of (ivHex, parts) \<Rightarrow> (ivHex, join_with '':'' parts))"

definition decryptFile_part000 :: "block_cipher \<Rightarrow> path \<Rightarrow> string option \<Rightarrow> unit io" where
  "decryptFile_part000 D filePath key =
     io_bind (existsSync filePath) (\<lambda>ex.
       if \<not> ex then
         io_throw (Error (path_string filePath @ '' does not exist. Cannot decrypt.''))
       else
         io_bind (readFileSync filePath) (\<lambda>data.
           case split_envelope_part000 data of (ivHex, encryptedText) \<Rightarrow>
             let iv = fromHex ivHex in
             io_bind (io_lift (Buffer_from_hex key)) (\<lambda>keybuf.
             io_bind (createDecipheriv keybuf iv) (\<lambda>decipher.
             io_bind (io_lift (decipher_update_final D decipher (Some encryptedText))) (\<lambda>decrypted.
               writeFileSync filePath (Text decrypted) 438)))))"

subsection \<open>Concrete worlds\<close>

definition demo_world :: world where
  "demo_world =
     \<lparr>cwd = [''home'', ''ann'', ''shop''],
      homedir = [''home'', ''ann''],
      umask = 18,
      dirs = [Abs [], Abs [''home''], Abs [''home'', ''ann''], Abs [''home'', ''ann'', ''shop'']],
      files = [Rel [''.env''] \<mapsto> \<lparr>content = Text ''secret=1'', mode = 420\<rparr>],
      git_config = [''user.name'' \<mapsto> ''Ann'', ''user.email'' \<mapsto> ''ann@example.org''],
      clock = ''2024-01-01T00:00:00.000Z'',
      entropy = (\<lambda>n. of_nat (7 * n + 3)),
      drawn = 0,
      trace = []\<rparr>"

text \<open>
  \<open>mismatch_world\<close>: an encrypted file whose binding record carries a token other than
  the one of the stored key. \<open>no_git_world\<close>: \<open>demo_world\<close> without a git identity.
\<close>

definition mismatch_world :: world where
  "mismatch_world = demo_world\<lparr>files :=
     [envFilePath \<mapsto> \<lparr>content = Text ''00112233445566778899aabbccddeeff:00'', mode = 384\<rparr>,
      metadataFilePath \<mapsto>
        \<lparr>content = Json [(''last_encrypted_by'', ''Bob <bob@example.org>''),
                          (''key_path'', ''/home/ann/.env_keys/shop/env_key.json''),
                          (''key_status'', ''stable''),
                          (''validation_token'', ''bbbb''),
                          (''timestamp'', ''2023-12-31T23:59:59.000Z'')], mode = 384\<rparr>,
      Abs [''home'', ''ann'', ''.env_keys'', ''shop'', ''env_key.json''] \<mapsto>
        \<lparr>content = Json [(''key'', ''00''), (''validation_token'', ''aaaa'')], mode = 384\<rparr>]\<rparr>"

definition no_git_world :: world where
  "no_git_world = demo_world\<lparr>git_config := Map.empty\<rparr>"

text \<open>
  A key of 32 bytes in hexadecimal (the key of the example of FIPS 197, appendix C.3); a
  protected file that is not UTF-8 text; a protected file of 40 bytes, and the envelope
  of that file under \<open>demo_key\<close> and AES with the first byte of its ciphertext changed
  from 47 to 46.
\<close>

definition demo_key :: string where
  "demo_key = ''000102030405060708090a0b0c0d0e0f101112131415161718191a1b1c1d1e1f''"

definition binary_world :: world where
  "binary_world = demo_world\<lparr>files :=
     [envFilePath \<mapsto> \<lparr>content = Text [CHR 0xFF], mode = 420\<rparr>]\<rparr>"

definition long_world :: world where
  "long_world = demo_world\<lparr>files :=
     [envFilePath \<mapsto> \<lparr>content = Text ''API_KEY=0123456789abcdef0123456789abcdef'', mode = 384\<rparr>]\<rparr>"

definition tampered_world :: world where
  "tampered_world = demo_world\<lparr>files :=
     [envFilePath \<mapsto> \<lparr>content = Text ''030a11181f262d343b424950575e656c:46451c1972919cf20f289363290a24475c84f1f6e8fb6fa2c288ecb407820648a894f1adaaba1499112b5238b9c1d1b5'', mode = 384\<rparr>]\<rparr>"

section \<open>Properties\<close>

subsection \<open>Hexadecimal text\<close>

lemma hexval_hexdigit: "n < 16 \<Longrightarrow> hexval (hexdigit n) = Some n"
proof -
  assume "n < 16"
  then have "n \<in> set [0..<16]" by simp
  then show ?thesis
    by (auto simp add: hexval_def hexdigit_def upt_rec)
qed

lemma hexdigit_ascii: "n < 16 \<Longrightarrow> (of_char (hexdigit n) :: nat) < 128"
proof -
  assume "n < 16"
  then have "n \<in> set [0..<16]" by simp
  then show ?thesis
    by (auto simp add: hexdigit_def upt_rec)
qed

lemma hexdigit_not_colon: "n < 16 \<Longrightarrow> hexdigit n \<noteq> CHR '':''"
proof -
  assume "n < 16"
  then have "n \<in> set [0..<16]" by simp
  then show ?thesis
    by (auto simp add: hexdigit_def upt_rec)
qed

lemma nibbles: "unat (b::byte) div 16 < 16" "unat b mod 16 < 16"
  using unsigned_less[of b, where 'a=nat] by simp_all

lemma hex_decode_hex_of_byte: "hex_decode (hex_of_byte b @ cs) = b # hex_decode cs"
proof -
  have "(of_nat (16 * (unat b div 16) + unat b mod 16) :: byte) = b"
    by simp
  then show ?thesis
    by (simp add: hex_of_byte_def hexval_hexdigit nibbles)
qed

lemma hex_decode_toHex: "hex_decode (toHex bs) = bs"
  by (induction bs) (simp_all add: toHex_def hex_decode_hex_of_byte)

lemma toHex_ascii: "ascii (toHex bs)"
  by (induction bs) (simp_all add: toHex_def ascii_def hex_of_byte_def hexdigit_ascii nibbles)

lemma utf16_decode_ascii: "ascii s \<Longrightarrow> map char_of (utf16_decode 0 0 s) = s"
  by (induction s) (simp_all add: ascii_def Let_def)

lemma fromHex_ascii: "ascii s \<Longrightarrow> fromHex s = hex_decode s"
  by (simp add: fromHex_def utf16_units_def utf16_decode_ascii)

lemma fromHex_toHex: "fromHex (toHex bs) = bs"
  by (simp add: fromHex_ascii toHex_ascii hex_decode_toHex)

lemma hexval_ascii: "hexval c = Some x \<Longrightarrow> (of_char c :: nat) < 128"
  by (simp add: hexval_def Let_def split: if_splits)

lemma length_hex_decode:
  "list_all (\<lambda>c. hexval c \<noteq> None) s \<Longrightarrow> length (hex_decode s) = length s div 2"
  by (induction s rule: hex_decode.induct) auto

text \<open>A text of hexadecimal digits decodes to one byte for every two digits.\<close>

lemma fromHex_digits:
  assumes "list_all (\<lambda>c. hexval c \<noteq> None) s"
  shows "length (fromHex s) = length s div 2"
proof -
  have "ascii s"
    using assms by (auto simp add: ascii_def list_all_iff intro: hexval_ascii)
  then show ?thesis
    using assms by (simp add: fromHex_ascii length_hex_decode)
qed

lemma replicate_8: "replicate 8 x = [x, x, x, x, x, x, x, x]"
  by (simp add: eval_nat_numeral)

lemma char_of_eq_iff: "char_of (n::nat) = c \<longleftrightarrow> n mod 256 = of_char c"
proof
  assume "char_of n = c"
  then have "of_char (char_of n) = (of_char c :: nat)" by simp
  then show "n mod 256 = of_char c" by simp
next
  assume "n mod 256 = of_char c"
  then have "char_of (n mod 256) = char_of (of_char c :: nat)" by simp
  then show "char_of n = c" by simp
qed

text \<open>
  A character outside ASCII is read by the low byte of its code unit: the digits 41
  followed by U+0130 twice decode to the bytes 41 and 00. A pair with a character that
  is no digit ends the decoding, and a single trailing digit is ignored.
\<close>

lemma fromHex_low_byte:
  "fromHex [CHR ''4'', CHR ''1'', CHR 0xC4, CHR 0xB0, CHR 0xC4, CHR 0xB0] = [0x41, 0x00]"
  "fromHex [CHR ''4'', CHR 0xC3, CHR 0xA9, CHR ''1''] = []"
  "fromHex ''4a4'' = [0x4a]"
  by (simp_all add: fromHex_def utf16_units_def units_of_code_point_def hexval_def)

lemma hex_of_byte_no_colon: "CHR '':'' \<notin> set (hex_of_byte b)"
  using hexdigit_not_colon[OF nibbles(1), of b] hexdigit_not_colon[OF nibbles(2), of b]
  by (auto simp add: hex_of_byte_def)

lemma toHex_no_colon: "CHR '':'' \<notin> set (toHex bs)"
  by (induction bs) (simp_all add: toHex_def hex_of_byte_no_colon)

lemma length_toHex: "length (toHex bs) = 2 * length bs"
  by (induction bs) (simp_all add: toHex_def hex_of_byte_def)

subsection \<open>Text\<close>

lemma ascii_append: "ascii (a @ b) \<longleftrightarrow> ascii a \<and> ascii b"
  by (simp add: ascii_def)

lemma ascii_Cons: "ascii (c # s) \<longleftrightarrow> (of_char c :: nat) < 128 \<and> ascii s"
  by (simp add: ascii_def)

lemma utf8_sanitize_ascii: "ascii s \<Longrightarrow> utf8_sanitize s = s"
  unfolding utf8_sanitize_def ascii_def
  by (induction s) simp_all

lemma js_length_ascii: "ascii s \<Longrightarrow> js_length s = length s"
  unfolding js_length_def ascii_def
  by (induction s) simp_all

lemma char_of_byte_of_char: "char_of_byte (byte_of_char c) = c"
  by (simp add: char_of_byte_def byte_of_char_def unat_of_nat)

lemma map_char_of_byte_of_char: "map (char_of_byte \<circ> byte_of_char) s = s"
  by (induction s) (simp_all add: char_of_byte_of_char)

lemma split_on_no_sep: "d \<notin> set a \<Longrightarrow> split_on d a = (a, [])"
  by (induction a) auto

lemma split_on_first:
  "d \<notin> set a \<Longrightarrow> split_on d (a @ d # b) = (a, fst (split_on d b) # snd (split_on d b))"
  by (induction a) (auto split: prod.splits)

lemma join_split_on: "join_with [d] (fst (split_on d s) # snd (split_on d s)) = s"
proof (induction s)
  case Nil
  then show ?case by simp
next
  case (Cons c s)
  then show ?case
    by (cases "split_on d s"; cases "snd (split_on d s)") (auto split: prod.splits)
qed

lemma split_envelope_toHex:
  "split_envelope (toHex iv @ CHR '':'' # toHex ct) = (toHex iv, Some (toHex ct))"
  by (simp add: split_envelope_def split_on_first toHex_no_colon split_on_no_sep)

lemma split_envelope_part000_first:
  "split_envelope_part000 s =
     (takeWhile (\<lambda>c. c \<noteq> CHR '':'') s, drop 1 (dropWhile (\<lambda>c. c \<noteq> CHR '':'') s))"
proof (induction s)
  case Nil
  then show ?case by (simp add: split_envelope_part000_def)
next
  case (Cons c s)
  show ?case
  proof (cases "c = CHR '':''")
    case True
    then show ?thesis
      using join_split_on[of "CHR '':''" s]
      by (cases "split_on CHR '':'' s") (simp add: split_envelope_part000_def)
  next
    case False
    then show ?thesis
      using Cons by (simp add: split_envelope_part000_def split: prod.splits)
  qed
qed

subsection \<open>Chaining and padding\<close>

lemma xor_bytes_cancel: "length a = length b \<Longrightarrow> xor_bytes (xor_bytes a b) b = a"
  unfolding xor_bytes_def
  by (induction a b rule: list_induct2) (simp_all add: xor.assoc)

lemma length_xor_bytes: "length (xor_bytes a b) = min (length a) (length b)"
  by (simp add: xor_bytes_def)

lemma cbc_decrypt_append:
  "length c = 16 \<Longrightarrow>
   cbc_decrypt D k prev (c @ r) = xor_bytes (D k c) prev @ cbc_decrypt D k c r"
  by (subst cbc_decrypt.simps) auto

lemma multiple_16_take: "p \<noteq> [] \<Longrightarrow> length p mod 16 = 0 \<Longrightarrow> length (take 16 p) = 16"
  by (cases "length p < 16") auto

lemma multiple_16_drop: "length p mod 16 = 0 \<Longrightarrow> length (drop 16 p) mod 16 = 0"
  by (cases "length p < 16") (auto simp add: mod_diff_eq[symmetric] le_mod_geq)

subsection \<open>The block transformation is invertible\<close>

lemma byte_cases:
  assumes "list_all (\<lambda>n. P (of_nat n :: byte)) [0..<256]"
  shows "P x"
proof -
  have "unat x < 256"
    using unsigned_less[of x, where 'a = nat] by simp
  then have "unat x \<in> set [0..<256]"
    by simp
  then have "P (of_nat (unat x))"
    using assms unfolding list_all_iff by blast
  then show ?thesis by simp
qed

lemma inv_sub_byte_sub_byte: "inv_sub_byte (sub_byte x) = x"
  by (rule byte_cases) code_simp

lemma xtime_xor: "xtime (x XOR y) = xtime x XOR xtime y"
  by (cases "bit x 7"; cases "bit y 7")
     (simp_all add: xtime_def bit_xor_iff push_bit_xor ac_simps)

lemma xtime_0: "xtime 0 = 0"
  by (simp add: xtime_def)

lemmas xor_ac = xor.assoc xor.commute xor.left_commute

lemma gm_xor:
  "gm3 (x XOR y) = gm3 x XOR gm3 y"
  "gm9 (x XOR y) = gm9 x XOR gm9 y"
  "gm11 (x XOR y) = gm11 x XOR gm11 y"
  "gm13 (x XOR y) = gm13 x XOR gm13 y"
  "gm14 (x XOR y) = gm14 x XOR gm14 y"
  by (simp_all add: gm3_def gm9_def gm11_def gm13_def gm14_def xtime_xor xor_ac)

lemma xor_cancel: "a XOR (a XOR b) = (b::byte)"
  by (simp add: xor.assoc[symmetric])

lemma coeffs: "coeff1 x = x" "coeff2 x = 0" "coeff3 x = 0" "coeff4 x = 0"
  by (simp_all add: coeff1_def coeff2_def coeff3_def coeff4_def
        gm3_def gm9_def gm11_def gm13_def gm14_def xtime_xor xor_ac xor_cancel)

lemma inv_mix4_mix4:
  "inv_mix4 (xtime a XOR gm3 b XOR c XOR d) (a XOR xtime b XOR gm3 c XOR d)
            (a XOR b XOR xtime c XOR gm3 d) (gm3 a XOR b XOR c XOR xtime d)
     = [a, b, c, d]"
proof -
  have 1: "gm14 (xtime a XOR gm3 b XOR c XOR d) XOR gm11 (a XOR xtime b XOR gm3 c XOR d)
           XOR gm13 (a XOR b XOR xtime c XOR gm3 d) XOR gm9 (gm3 a XOR b XOR c XOR xtime d)
         = coeff1 a XOR coeff2 b XOR coeff3 c XOR coeff4 d"
    by (simp add: gm_xor coeff1_def coeff2_def coeff3_def coeff4_def xor_ac)
  have 2: "gm9 (xtime a XOR gm3 b XOR c XOR d) XOR gm14 (a XOR xtime b XOR gm3 c XOR d)
           XOR gm11 (a XOR b XOR xtime c XOR gm3 d) XOR gm13 (gm3 a XOR b XOR c XOR xtime d)
         = coeff4 a XOR coeff1 b XOR coeff2 c XOR coeff3 d"
    by (simp add: gm_xor coeff1_def coeff2_def coeff3_def coeff4_def xor_ac)
  have 3: "gm13 (xtime a XOR gm3 b XOR c XOR d) XOR gm9 (a XOR xtime b XOR gm3 c XOR d)
           XOR gm14 (a XOR b XOR xtime c XOR gm3 d) XOR gm11 (gm3 a XOR b XOR c XOR xtime d)
         = coeff3 a XOR coeff4 b XOR coeff1 c XOR coeff2 d"
    by (simp add: gm_xor coeff1_def coeff2_def coeff3_def coeff4_def xor_ac)
  have 4: "gm11 (xtime a XOR gm3 b XOR c XOR d) XOR gm13 (a XOR xtime b XOR gm3 c XOR d)
           XOR gm9 (a XOR b XOR xtime c XOR gm3 d) XOR gm14 (gm3 a XOR b XOR c XOR xtime d)
         = coeff2 a XOR coeff3 b XOR coeff4 c XOR coeff1 d"
    by (simp add: gm_xor coeff1_def coeff2_def coeff3_def coeff4_def xor_ac)
  show ?thesis
    unfolding inv_mix4_def
    by (simp only: 1 2 3 4 coeffs) simp
qed

lemma list16:
  assumes "length s = 16"
  obtains a0 a1 a2 a3 a4 a5 a6 a7 a8 a9 a10 a11 a12 a13 a14 a15
  where "s = [a0, a1, a2, a3, a4, a5, a6, a7, a8, a9, a10, a11, a12, a13, a14, a15 :: byte]"
  using assms by (auto simp add: eval_nat_numeral length_Suc_conv)

lemma inv_sub_bytes_sub_bytes: "inv_sub_bytes (sub_bytes s) = s"
  by (induction s) (simp_all add: inv_sub_bytes_def sub_bytes_def inv_sub_byte_sub_byte)

lemma length_sub_bytes: "length (sub_bytes s) = length s"
  by (simp add: sub_bytes_def)

lemma length_shift_rows: "length (shift_rows s) = 16"
  by (simp add: shift_rows_def)

lemma inv_shift_rows_shift_rows:
  assumes "length s = 16"
  shows "inv_shift_rows (shift_rows s) = s"
proof -
  from assms obtain a0 a1 a2 a3 a4 a5 a6 a7 a8 a9 a10 a11 a12 a13 a14 a15
    where "s = [a0, a1, a2, a3, a4, a5, a6, a7, a8, a9, a10, a11, a12, a13, a14, a15]"
    by (rule list16)
  then show ?thesis
    by (simp add: inv_shift_rows_def shift_rows_def)
qed

lemma length_mix4: "length (mix4 a b c d) = 4"
  by (simp add: mix4_def)

lemma length_mix_columns: "length (mix_columns s) = 16"
  by (simp add: mix_columns_def length_mix4)

lemma inv_mix_columns_mix_columns:
  assumes "length s = 16"
  shows "inv_mix_columns (mix_columns s) = s"
proof -
  from assms obtain a0 a1 a2 a3 a4 a5 a6 a7 a8 a9 a10 a11 a12 a13 a14 a15
    where "s = [a0, a1, a2, a3, a4, a5, a6, a7, a8, a9, a10, a11, a12, a13, a14, a15]"
    by (rule list16)
  then show ?thesis
    by (simp add: inv_mix_columns_def mix_columns_def mix4_def inv_mix4_mix4)
qed

lemma length_round_key: "length (round_key ws r) = 16"
proof -
  have "length (bytes_of_word4 w) = 4" for w
    by (cases w) simp
  then show ?thesis by (simp add: round_key_def)
qed

lemma aes_round_inverse:
  assumes "length s = 16"
  shows "length (aes_round ws r s) = 16 \<and> inv_aes_round ws r (aes_round ws r s) = s"
proof -
  have "xor_bytes (xor_bytes (mix_columns (shift_rows (sub_bytes s))) (round_key ws r))
          (round_key ws r) = mix_columns (shift_rows (sub_bytes s))"
    by (rule xor_bytes_cancel) (simp add: length_mix_columns length_round_key)
  then show ?thesis
    using assms
    by (simp add: aes_round_def inv_aes_round_def length_xor_bytes length_mix_columns
          length_round_key inv_mix_columns_mix_columns length_shift_rows
          inv_shift_rows_shift_rows length_sub_bytes inv_sub_bytes_sub_bytes)
qed

lemma fold_rounds_inverse:
  "length s = 16 \<Longrightarrow>
   length (fold (aes_round ws) rs s) = 16
   \<and> fold (inv_aes_round ws) (rev rs) (fold (aes_round ws) rs s) = s"
proof (induction rs arbitrary: s)
  case Nil
  then show ?case by simp
next
  case (Cons r rs)
  from aes_round_inverse[OF Cons.prems, of ws r]
  have l: "length (aes_round ws r s) = 16" and i: "inv_aes_round ws r (aes_round ws r s) = s"
    by simp_all
  from Cons.IH[OF l] show ?case
    by (simp add: i)
qed

lemma aes256_block_inverse:
  assumes "length b = 16"
  shows "length (aes256_encrypt_block k b) = 16
       \<and> aes256_decrypt_block k (aes256_encrypt_block k b) = b"
proof -
  define ws where "ws = key_expansion k"
  define s0 where "s0 = xor_bytes b (round_key ws 0)"
  define s where "s = fold (aes_round ws) [1..<14] s0"
  have l0: "length s0 = 16"
    using assms by (simp add: s0_def length_xor_bytes length_round_key)
  have s: "length s = 16" "fold (inv_aes_round ws) (rev [1..<14]) s = s0"
    using fold_rounds_inverse[OF l0, of ws "[1..<14]"] by (simp_all add: s_def)
  have enc: "aes256_encrypt_block k b = xor_bytes (shift_rows (sub_bytes s)) (round_key ws 14)"
    by (simp add: aes256_encrypt_block_def encrypt_rounds_def ws_def s_def s0_def)
  have c: "xor_bytes (xor_bytes (shift_rows (sub_bytes s)) (round_key ws 14)) (round_key ws 14)
             = shift_rows (sub_bytes s)"
    by (rule xor_bytes_cancel) (simp add: length_shift_rows length_round_key)
  have b: "xor_bytes s0 (round_key ws 0) = b"
    unfolding s0_def by (rule xor_bytes_cancel) (simp add: assms length_round_key)
  have isr: "inv_shift_rows (shift_rows (sub_bytes s)) = sub_bytes s"
    by (rule inv_shift_rows_shift_rows) (simp add: length_sub_bytes s(1))
  have "aes256_decrypt_block k (aes256_encrypt_block k b) = b"
    by (simp only: enc aes256_decrypt_block_def decrypt_rounds_def ws_def[symmetric] c isr
          inv_sub_bytes_sub_bytes s(2) b)
  moreover have "length (aes256_encrypt_block k b) = 16"
    by (simp add: enc length_xor_bytes length_shift_rows length_round_key)
  ultimately show ?thesis by simp
qed

lemma aes256_ok: "cipher_ok aes256_encrypt_block aes256_decrypt_block"
  by (simp add: cipher_ok_def aes256_block_inverse)

lemma cbc_encrypt_step:
  "p \<noteq> [] \<Longrightarrow>
   cbc_encrypt E k prev p =
     E k (xor_bytes (take 16 p) prev)
     @ cbc_encrypt E k (E k (xor_bytes (take 16 p) prev)) (drop 16 p)"
  by (subst cbc_encrypt.simps) (simp add: Let_def)

lemma cbc_encrypt_props:
  "cipher_ok E D \<Longrightarrow> length k = 32 \<Longrightarrow> length prev = 16 \<Longrightarrow> length p mod 16 = 0 \<Longrightarrow>
   length (cbc_encrypt E k prev p) = length p
   \<and> cbc_decrypt D k prev (cbc_encrypt E k prev p) = p"
proof (induction E k prev p rule: cbc_encrypt.induct)
  case (1 E k prev p)
  show ?case
  proof (cases "p = []")
    case True
    then show ?thesis by (simp add: cbc_encrypt.simps cbc_decrypt.simps)
  next
    case False
    define b where "b = take 16 p"
    define x where "x = xor_bytes b prev"
    define c where "c = E k x"
    have lb: "length b = 16"
      unfolding b_def using False "1.prems"(4) by (rule multiple_16_take)
    have lx: "length x = 16"
      by (simp add: x_def length_xor_bytes lb "1.prems"(3))
    have c: "length c = 16" "D k c = x"
      using "1.prems"(1,2) lx by (simp_all add: cipher_ok_def c_def)
    have rest: "length (drop 16 p) mod 16 = 0"
      using "1.prems"(4) by (rule multiple_16_drop)
    have enc: "cbc_encrypt E k prev p = c @ cbc_encrypt E k c (drop 16 p)"
      using False by (simp add: cbc_encrypt_step c_def x_def b_def)
    have ih: "length (cbc_encrypt E k c (drop 16 p)) = length (drop 16 p)
              \<and> cbc_decrypt D k c (cbc_encrypt E k c (drop 16 p)) = drop 16 p"
      using "1.IH"[OF False, of c] "1.prems"(1,2) c(1) rest
      by (simp add: c_def x_def b_def)
    have xb: "xor_bytes x prev = b"
      unfolding x_def by (rule xor_bytes_cancel) (simp add: lb "1.prems"(3))
    have len: "length p = 16 + length (drop 16 p)"
      using lb by (simp add: b_def)
    have "cbc_decrypt D k prev (cbc_encrypt E k prev p) = b @ drop 16 p"
      by (simp add: enc cbc_decrypt_append c ih xb)
    moreover have "length (cbc_encrypt E k prev p) = length p"
      using len by (simp add: enc c ih)
    ultimately show ?thesis by (simp add: b_def)
  qed
qed

lemma pkcs7_unpad_replicate:
  assumes "0 < n" "n \<le> 16"
  shows "pkcs7_unpad (y @ replicate n (of_nat n)) = Some y"
proof -
  have u: "unat (of_nat n :: byte) = n"
    using assms by (simp add: unat_of_nat)
  have l: "last (y @ replicate n (of_nat n :: byte)) = of_nat n"
    using assms by simp
  show ?thesis
    unfolding pkcs7_unpad_def l Let_def u
    using assms by simp
qed

lemma pad_amount: "0 < 16 - length (p::byte list) mod 16" "16 - length p mod 16 \<le> 16"
  by simp_all

lemma pkcs7_roundtrip: "pkcs7_unpad (pkcs7_pad p) = Some p"
  unfolding pkcs7_pad_def Let_def
  by (rule pkcs7_unpad_replicate) simp_all

lemma length_pkcs7_pad: "length (pkcs7_pad p) mod 16 = 0"
proof -
  have "(length p + (16 - length p mod 16)) mod 16 = 0"
    by presburger
  then show ?thesis by (simp add: pkcs7_pad_def Let_def)
qed

lemma pkcs7_pad_nonempty: "pkcs7_pad p \<noteq> []"
  by (simp add: pkcs7_pad_def Let_def)

lemma length_pkcs7_pad_gt: "length p < length (pkcs7_pad p)"
  by (simp add: pkcs7_pad_def Let_def)

lemma decipher_roundtrip:
  assumes "cipher_ok E D" "length kb = 32" "length iv = 16" "utf8_sanitize data = data"
  shows "decipher_update_final D (kb, iv) (Some (cipher_update_final E (kb, iv) data)) = Inr data"
proof -
  define p where "p = pkcs7_pad (map byte_of_char data)"
  define ct where "ct = cbc_encrypt E kb iv p"
  have p: "length p mod 16 = 0" "p \<noteq> []"
    by (simp_all add: p_def length_pkcs7_pad pkcs7_pad_nonempty)
  have ct: "length ct = length p" "cbc_decrypt D kb iv ct = p"
    using cbc_encrypt_props[OF assms(1,2,3) p(1)] by (simp_all add: ct_def)
  have ne: "ct \<noteq> []" "length ct mod 16 = 0"
    using ct(1) p by auto
  have even: "\<not> odd (js_length (toHex ct))"
    by (simp add: js_length_ascii toHex_ascii length_toHex)
  have un: "pkcs7_unpad p = Some (map byte_of_char data)"
    by (simp add: p_def pkcs7_roundtrip)
  show ?thesis
    using ne even
    by (simp add: decipher_update_final_def cipher_update_final_def ct_def[symmetric]
          p_def[symmetric] fromHex_toHex ct(2) un map_char_of_byte_of_char assms(4))
qed

subsection \<open>Running the functions of the script\<close>

lemma envelope_ascii: "ascii (envelope E kb iv data)"
  by (simp add: envelope_def ascii_append ascii_Cons toHex_ascii cipher_update_final_def)

lemma keyPath_of_Abs: "keyPath_of w \<noteq> Rel cs"
  by (simp add: keyPath_of_def getKeyDirectory_def)

lemma encryptFile_run:
  assumes "files w p = Some f" "length (fromHex k) = 32"
  shows "encryptFile E p (Some k) w =
    (Inr (),
     w\<lparr>drawn := drawn w + 16,
       files := (files w)(p \<mapsto> f\<lparr>content :=
                  Text (envelope E (fromHex k) (map (entropy w) [drawn w ..< drawn w + 16])
                          (utf8_sanitize (bytes_of (content f))))\<rparr>),
       trace := trace w @ [EvExists p, EvRead p, EvRandom 16, EvCipher,
                  EvWrite p (Text (envelope E (fromHex k)
                     (map (entropy w) [drawn w ..< drawn w + 16])
                     (utf8_sanitize (bytes_of (content f)))))]\<rparr>)"
  using assms
  by (simp add: encryptFile_def io_bind_def io_lift_def existsSync_def readFileSync_def
        randomBytes_def Buffer_from_hex_def createCipheriv_def check_key_iv_def
        writeFileSync_def write_entry_def emit_def envelope_def Let_def)

lemma decryptFile_run:
  assumes "cipher_ok E D" "files w p = Some f"
    and "content f = Text (envelope E (fromHex k) iv data)"
    and "length iv = 16" "length (fromHex k) = 32" "utf8_sanitize data = data"
  shows "decryptFile D p (Some k) w =
    (Inr (),
     w\<lparr>files := (files w)(p \<mapsto> f\<lparr>content := Text data\<rparr>),
       trace := trace w @ [EvExists p, EvRead p, EvDecipher, EvWrite p (Text data)]\<rparr>)"
proof -
  have san: "utf8_sanitize (envelope E (fromHex k) iv data) = envelope E (fromHex k) iv data"
    by (rule utf8_sanitize_ascii) (rule envelope_ascii)
  have split: "split_envelope (envelope E (fromHex k) iv data)
                 = (toHex iv, Some (cipher_update_final E (fromHex k, iv) data))"
    by (simp add: envelope_def cipher_update_final_def split_envelope_toHex)
  have dec: "decipher_update_final D (fromHex k, iv)
               (Some (cipher_update_final E (fromHex k, iv) data)) = Inr data"
    using assms(1,5,4,6) by (rule decipher_roundtrip)
  show ?thesis
    using assms(2,3,4,5)
    by (simp add: decryptFile_def io_bind_def io_lift_def existsSync_def readFileSync_def
          Buffer_from_hex_def createDecipheriv_def check_key_iv_def san split dec
          fromHex_toHex writeFileSync_def write_entry_def emit_def Let_def)
qed

lemma content_write_entry: "content (write_entry e d m u) = d"
  by (simp add: write_entry_def split: option.splits)

lemma write_entry_Some: "write_entry (Some f) d m u = f\<lparr>content := d\<rparr>"
  by (simp add: write_entry_def)

lemma write_entry_None: "write_entry None d m u = \<lparr>content = d, mode = m AND NOT u\<rparr>"
  by (simp add: write_entry_def)

lemma loadKey_run:
  "files w kp = Some kf \<Longrightarrow> content kf = Json kd \<Longrightarrow>
   loadKey kp w = (Inr kd, w\<lparr>trace := trace w @ [EvExists kp, EvRead kp]\<rparr>)"
  by (simp add: loadKey_def io_bind_def existsSync_def readJSON_def emit_def)

lemma getGitUser_run:
  "git_config w ''user.name'' = Some n \<Longrightarrow> git_config w ''user.email'' = Some m \<Longrightarrow>
   getGitUser w = (Inr (n @ '' <'' @ m @ ''>''),
                   w\<lparr>trace := trace w @ [EvGit ''user.name'', EvGit ''user.email'']\<rparr>)"
  by (simp add: getGitUser_def execSync_git_config_def emit_def)

lemma getGitUser_fails:
  "git_config w ''user.name'' = None \<or> git_config w ''user.email'' = None \<Longrightarrow>
   \<exists>evs. getGitUser w = (Inl git_error, w\<lparr>trace := trace w @ EvGit ''user.name'' # evs\<rparr>)"
  by (cases "git_config w ''user.name''")
     (auto simp add: getGitUser_def execSync_git_config_def emit_def)

lemma main_encrypt_fresh:
  assumes "files w envFilePath = Some f" "files w (Abs cs) = None"
    and "git_config w ''user.name'' = Some n" "git_config w ''user.email'' = Some m"
  shows "\<exists>w'. main_encrypt E (Abs cs) w = (Inr (), w')
    \<and> files w' = (files w)
        (Abs cs \<mapsto> \<lparr>content = Json [(''key'', toHex (rand w 16 32)),
                                        (''validation_token'', toHex (rand w 0 16))],
                     mode = 384 AND NOT (umask w)\<rparr>,
         envFilePath \<mapsto> f\<lparr>content :=
            Text (envelope E (rand w 16 32) (rand w 48 16) (utf8_sanitize (bytes_of (content f))))\<rparr>,
         metadataFilePath \<mapsto> write_entry (files w metadataFilePath)
            (Json [(''last_encrypted_by'', n @ '' <'' @ m @ ''>''),
                   (''key_path'', path_string (Abs cs)),
                   (''key_status'', ''stable''),
                   (''validation_token'', toHex (rand w 0 16)),
                   (''timestamp'', clock w)]) 384 (umask w))
    \<and> cwd w' = cwd w \<and> homedir w' = homedir w \<and> git_config w' = git_config w
    \<and> umask w' = umask w \<and> entropy w' = entropy w \<and> clock w' = clock w
    \<and> drawn w' = drawn w + 64
    \<and> last (trace w') = EvLog ''File encrypted and metadata saved.''"
  using assms
  by (simp add: main_encrypt_def io_bind_def io_return_def generateValidationToken_def
        saveKey_def mkdirSync_recursive_def loadKey_def readJSON_def updateMetadata_def
        getGitUser_def execSync_git_config_def toISOString_now_def console_log_def property_def
        encryptFile_def io_lift_def existsSync_def readFileSync_def
        randomBytes_def Buffer_from_hex_def createCipheriv_def check_key_iv_def
        writeFileSync_def emit_def envelope_def rand_def Let_def content_write_entry
        write_entry_Some write_entry_None
        envFilePath_def metadataFilePath_def fromHex_toHex fun_upd_twist add.commute)

lemma main_rotate_run:
  assumes "files w envFilePath = Some f"
    and "git_config w ''user.name'' = Some n" "git_config w ''user.email'' = Some m"
  shows "\<exists>w'. main_rotate E (Abs cs) w = (Inr (), w')
    \<and> files w' = (files w)
        (Abs cs \<mapsto> write_entry (files w (Abs cs))
                      (Json [(''key'', toHex (rand w 0 32)),
                             (''validation_token'', toHex (rand w 32 16))]) 384 (umask w),
         envFilePath \<mapsto> f\<lparr>content :=
            Text (envelope E (rand w 0 32) (rand w 48 16) (utf8_sanitize (bytes_of (content f))))\<rparr>,
         metadataFilePath \<mapsto> write_entry (files w metadataFilePath)
            (Json [(''last_encrypted_by'', n @ '' <'' @ m @ ''>''),
                   (''key_path'', path_string (Abs cs)),
                   (''key_status'', ''rotated''),
                   (''validation_token'', toHex (rand w 32 16)),
                   (''timestamp'', clock w)]) 384 (umask w))
    \<and> cwd w' = cwd w \<and> homedir w' = homedir w \<and> git_config w' = git_config w
    \<and> umask w' = umask w \<and> entropy w' = entropy w \<and> clock w' = clock w
    \<and> drawn w' = drawn w + 64
    \<and> last (trace w') = EvLog ''Encryption key rotated, file re-encrypted, and metadata updated.''"
  using assms
  by (simp add: main_rotate_def io_bind_def io_return_def generateValidationToken_def
        saveKey_def mkdirSync_recursive_def loadKey_def readJSON_def updateMetadata_def
        getGitUser_def execSync_git_config_def toISOString_now_def console_log_def property_def
        encryptFile_def io_lift_def existsSync_def readFileSync_def
        randomBytes_def Buffer_from_hex_def createCipheriv_def check_key_iv_def
        writeFileSync_def emit_def envelope_def rand_def Let_def content_write_entry
        write_entry_Some write_entry_None
        envFilePath_def metadataFilePath_def fromHex_toHex fun_upd_twist add.commute)

lemma main_decrypt_run:
  assumes "cipher_ok E D"
    and "files w (Abs cs) = Some kf" "content kf = Json kd"
    and "map_of kd ''key'' = Some k" "length (fromHex k) = 32"
    and "files w metadataFilePath = Some mf" "content mf = Json md"
    and "map_of kd ''validation_token'' = map_of md ''validation_token''"
    and "files w envFilePath = Some f" "content f = Text (envelope E (fromHex k) iv data)"
    and "length iv = 16" "utf8_sanitize data = data"
  shows "\<exists>w'. main_decrypt D (Abs cs) w = (Inr (), w')
    \<and> files w' = (files w)(envFilePath \<mapsto> f\<lparr>content := Text data\<rparr>)
    \<and> last (trace w') = EvLog ''File decrypted.''"
proof -
  define w1 where "w1 = w\<lparr>trace := trace w @ [EvExists (Abs cs), EvRead (Abs cs), EvRead metadataFilePath]\<rparr>"
  have d: "decryptFile D envFilePath (Some k) w1 =
    (Inr (),
     w1\<lparr>files := (files w1)(envFilePath \<mapsto> f\<lparr>content := Text data\<rparr>),
       trace := trace w1 @ [EvExists envFilePath, EvRead envFilePath, EvDecipher,
                            EvWrite envFilePath (Text data)]\<rparr>)"
    by (rule decryptFile_run[OF assms(1) _ assms(10,11,5,12)]) (simp add: w1_def assms(9))
  show ?thesis
    using assms(2,3,4,6,7,8) d
    by (simp add: main_decrypt_def io_bind_def io_return_def io_throw_def loadKey_def
          readJSON_def existsSync_def emit_def validateKey_def console_log_def w1_def)
qed

subsection \<open>The binding check\<close>

lemma keyPath_of_eq: "\<exists>cs. keyPath_of w = Abs cs"
  by (simp add: keyPath_of_def getKeyDirectory_def)

lemma keyPath_of_demo_world:
  "keyPath_of demo_world = Abs [''home'', ''ann'', ''.env_keys'', ''shop'', ''env_key.json'']"
  by (simp add: keyPath_of_def getKeyDirectory_def getProjectName_def demo_world_def)

lemma keyPath_of_mismatch_world:
  "keyPath_of mismatch_world = Abs [''home'', ''ann'', ''.env_keys'', ''shop'', ''env_key.json'']"
  by (simp add: keyPath_of_def getKeyDirectory_def getProjectName_def demo_world_def
        mismatch_world_def)

lemma validateKey_names_operator:
  "map_of keyData ''validation_token'' \<noteq> map_of metadata ''validation_token'' \<Longrightarrow>
   validateKey keyData metadata w =
     (Inl (Error (''Validation failed. The key used is not compatible with the metadata. Last encrypted by: ''
                  @ js_show (map_of metadata ''last_encrypted_by'')
                  @ '' at '' @ js_show (map_of metadata ''timestamp''))), w)"
  by (simp add: validateKey_def io_throw_def)

text \<open>
  Claim C4. A decrypt run in which the validation token of the stored key differs from
  the token of the metadata record fails with the binding error (\<open>Validation failed\<close>)
  before any cipher operation: the run only checks for the key file and reads the key
  and the metadata; no decipher is created, and no file, in particular not the protected
  one, is changed.
\<close>

theorem decrypt_binding_gate:
  assumes "files w (keyPath_of w) = Some kf" "content kf = Json keyData"
    and "files w metadataFilePath = Some mf" "content mf = Json metadata"
    and "map_of keyData ''validation_token'' \<noteq> map_of metadata ''validation_token''"
  shows "main_try E D ''decrypt'' w =
     (Inl (Error (''Validation failed. The key used is not compatible with the metadata. Last encrypted by: ''
                  @ js_show (map_of metadata ''last_encrypted_by'')
                  @ '' at '' @ js_show (map_of metadata ''timestamp''))),
      w\<lparr>trace := trace w @ [EvExists (keyPath_of w), EvRead (keyPath_of w),
                             EvRead metadataFilePath]\<rparr>)"
  using assms
  by (simp add: main_try_def Let_def main_decrypt_def io_bind_def io_throw_def loadKey_def
        readJSON_def existsSync_def emit_def validateKey_def)

theorem decrypt_binding_gate_witness:
  "main_try aes256_encrypt_block aes256_decrypt_block ''decrypt'' mismatch_world =
     (Inl (Error ''Validation failed. The key used is not compatible with the metadata. Last encrypted by: Bob <bob@example.org> at 2023-12-31T23:59:59.000Z''),
      mismatch_world\<lparr>trace := trace mismatch_world @
         [EvExists (keyPath_of mismatch_world), EvRead (keyPath_of mismatch_world),
          EvRead metadataFilePath]\<rparr>)"
proof -
  let ?kd = "[(''key'', ''00''), (''validation_token'', ''aaaa'')]"
  let ?md = "[(''last_encrypted_by'', ''Bob <bob@example.org>''),
              (''key_path'', ''/home/ann/.env_keys/shop/env_key.json''),
              (''key_status'', ''stable''),
              (''validation_token'', ''bbbb''),
              (''timestamp'', ''2023-12-31T23:59:59.000Z'')]"
  have k: "files mismatch_world (keyPath_of mismatch_world)
             = Some \<lparr>content = Json ?kd, mode = 384\<rparr>"
    by (simp add: keyPath_of_mismatch_world) (simp add: mismatch_world_def)
  have m: "files mismatch_world metadataFilePath = Some \<lparr>content = Json ?md, mode = 384\<rparr>"
    by (simp add: mismatch_world_def metadataFilePath_def envFilePath_def)
  have t: "map_of ?kd ''validation_token'' \<noteq> map_of ?md ''validation_token''"
    by simp
  show ?thesis
    using decrypt_binding_gate[OF k _ m _ t, of aes256_encrypt_block aes256_decrypt_block]
    by (simp add: js_show_def)
qed

subsection \<open>Rotation writes the key first\<close>

lemma rotate_trace_prefix:
  "take 5 (drop (length (trace w)) (trace (snd (main_try E D ''rotate'' w)))) =
     [EvRandom 32, EvRandom 16, EvMkdir (dirname (keyPath_of w)),
      EvWrite (keyPath_of w)
        (Json [(''key'', toHex (rand w 0 32)), (''validation_token'', toHex (rand w 32 16))]),
      EvExists envFilePath]"
proof -
  obtain cs where kp: "keyPath_of w = Abs cs"
    using keyPath_of_eq by blast
  show ?thesis
    unfolding kp main_try_def Let_def
    by (simp add: kp main_rotate_def io_bind_def io_return_def generateValidationToken_def
        saveKey_def mkdirSync_recursive_def loadKey_def readJSON_def updateMetadata_def
        getGitUser_def execSync_git_config_def toISOString_now_def console_log_def property_def
        encryptFile_def io_lift_def existsSync_def readFileSync_def io_throw_def
        randomBytes_def Buffer_from_hex_def createCipheriv_def check_key_iv_def
        writeFileSync_def emit_def rand_def Let_def content_write_entry
        envFilePath_def metadataFilePath_def fromHex_toHex add.commute
        split: option.splits)
qed

lemma rotate_key_file_final:
  "files (snd (main_try E D ''rotate'' w)) (keyPath_of w) =
     Some (write_entry (files w (keyPath_of w))
        (Json [(''key'', toHex (rand w 0 32)), (''validation_token'', toHex (rand w 32 16))])
        384 (umask w))"
proof -
  obtain cs where kp: "keyPath_of w = Abs cs"
    using keyPath_of_eq by blast
  show ?thesis
    unfolding kp main_try_def Let_def
    by (simp add: kp main_rotate_def io_bind_def io_return_def generateValidationToken_def
        saveKey_def mkdirSync_recursive_def loadKey_def readJSON_def updateMetadata_def
        getGitUser_def execSync_git_config_def toISOString_now_def console_log_def property_def
        encryptFile_def io_lift_def existsSync_def readFileSync_def io_throw_def
        randomBytes_def Buffer_from_hex_def createCipheriv_def check_key_iv_def
        writeFileSync_def emit_def rand_def Let_def content_write_entry
        envFilePath_def metadataFilePath_def fromHex_toHex add.commute
        split: option.splits)
qed

text \<open>
  Claim C5. In every rotate run the new key record (a fresh secret and a fresh
  validation token) is persisted to the key file before re-encryption is attempted.
  Every run of rotate is the run of the rest of the branch, which starts with
  \<open>encryptFile\<close>, from a world \<open>w1\<close> in which the key file holds the new record:
  \<open>w1\<close> is reached by the two random draws, the creation of the key directory and the
  write of the key file, and by nothing else. The first effect after these four is the
  check of \<open>encryptFile\<close> that the protected file exists; and whatever becomes of the
  re-encryption and of the metadata, the key file holds the new record when the run ends.
\<close>

theorem rotate_saves_key_first:
  "\<exists>w1 kf.
      main_try E D ''rotate'' w =
        io_bind (encryptFile E envFilePath (Some (toHex (rand w 0 32)))) (\<lambda>_.
        io_bind (updateMetadata (keyPath_of w) True) (\<lambda>_.
          console_log ''Encryption key rotated, file re-encrypted, and metadata updated.'')) w1
    \<and> files w1 (keyPath_of w) = Some kf
    \<and> content kf = Json [(''key'', toHex (rand w 0 32)),
                           (''validation_token'', toHex (rand w 32 16))]
    \<and> trace w1 = trace w @
         [EvRandom 32, EvRandom 16, EvMkdir (dirname (keyPath_of w)),
          EvWrite (keyPath_of w)
            (Json [(''key'', toHex (rand w 0 32)), (''validation_token'', toHex (rand w 32 16))])]
    \<and> take 5 (drop (length (trace w)) (trace (snd (main_try E D ''rotate'' w)))) =
         [EvRandom 32, EvRandom 16, EvMkdir (dirname (keyPath_of w)),
          EvWrite (keyPath_of w)
            (Json [(''key'', toHex (rand w 0 32)), (''validation_token'', toHex (rand w 32 16))]),
          EvExists envFilePath]
    \<and> (\<exists>kf'. files (snd (main_try E D ''rotate'' w)) (keyPath_of w) = Some kf'
           \<and> content kf' = Json [(''key'', toHex (rand w 0 32)),
                                  (''validation_token'', toHex (rand w 32 16))])"
proof -
  obtain cs where kp: "keyPath_of w = Abs cs"
    using keyPath_of_eq by blast
  define rec where
    "rec = [(''key'', toHex (rand w 0 32)), (''validation_token'', toHex (rand w 32 16))]"
  define w1 where "w1 = w\<lparr>drawn := drawn w + 48,
      dirs := dirs w @ filter (\<lambda>d. d \<notin> set (dirs w)) (ancestors (dirname (Abs cs))),
      files := (files w)(Abs cs \<mapsto> write_entry (files w (Abs cs)) (Json rec) 384 (umask w)),
      trace := trace w @ [EvRandom 32, EvRandom 16, EvMkdir (dirname (Abs cs)),
                          EvWrite (Abs cs) (Json rec)]\<rparr>"
  have run: "main_try E D ''rotate'' w =
        io_bind (encryptFile E envFilePath (Some (toHex (rand w 0 32)))) (\<lambda>_.
        io_bind (updateMetadata (Abs cs) True) (\<lambda>_.
          console_log ''Encryption key rotated, file re-encrypted, and metadata updated.'')) w1"
    unfolding main_try_def Let_def kp
    by (simp add: main_rotate_def io_bind_def io_return_def generateValidationToken_def
        saveKey_def mkdirSync_recursive_def randomBytes_def writeFileSync_def emit_def rand_def
        Let_def w1_def rec_def add.commute)
  have f1: "files w1 (Abs cs) = Some (write_entry (files w (Abs cs)) (Json rec) 384 (umask w))"
    by (simp add: w1_def)
  have t1: "trace w1 = trace w @ [EvRandom 32, EvRandom 16, EvMkdir (dirname (Abs cs)),
                          EvWrite (Abs cs) (Json rec)]"
    by (simp add: w1_def)
  show ?thesis
    apply (rule exI[of _ w1])
    apply (rule exI[of _ "write_entry (files w (Abs cs)) (Json rec) 384 (umask w)"])
    using run f1 t1 rotate_trace_prefix[of w E D] rotate_key_file_final[of E D w]
    by (simp add: kp content_write_entry rec_def)
qed

subsection \<open>Persisting the key\<close>

lemma owner_only: "((384 :: 32 word) AND NOT u) AND 63 = 0"
proof -
  have "((384 :: 32 word) AND NOT u) AND 63 = (384 AND 63) AND NOT u"
    by (simp add: ac_simps)
  then show ?thesis by simp
qed

text \<open>
  \<open>saveKey\<close> of \<^verbatim>\<open>encrypt_env.js\<close> creates the directories above the key file, and a
  key file that it creates has no permission bit for group or others. A key file that
  exists already keeps the mode it has.
\<close>

lemma saveKey_creates:
  assumes "files w keyPath = None"
  shows "\<exists>w' f. saveKey keyData keyPath w = (Inr (), w')
           \<and> files w' keyPath = Some f \<and> content f = Json keyData \<and> mode f AND 63 = 0
           \<and> set (ancestors (dirname keyPath)) \<subseteq> set (dirs w')"
  using assms
  by (auto simp add: saveKey_def io_bind_def mkdirSync_recursive_def writeFileSync_def emit_def
        write_entry_None owner_only)

lemma saveKey_existing_keeps_mode:
  assumes "files w keyPath = Some f"
  shows "\<exists>w'. saveKey keyData keyPath w = (Inr (), w')
           \<and> files w' keyPath = Some (f\<lparr>content := Json keyData\<rparr>)"
  using assms
  by (auto simp add: saveKey_def io_bind_def mkdirSync_recursive_def writeFileSync_def emit_def
        write_entry_Some)

text \<open>
  Claim C6. Whenever the key record is persisted, the missing parent directories are
  created and the key file is restricted to its owner. \<open>saveKey\<close> of the second copy of
  the script passes no mode: with the usual umask \<^verbatim>\<open>022\<close> (18) the key file it creates
  has mode \<^verbatim>\<open>0o644\<close> (420), readable by group and others (the bits \<^verbatim>\<open>0o044\<close>, 36).
\<close>

theorem saveKey_part000_mode:
  "files (snd (saveKey_part000 [(''key'', ''00''), (''validation_token'', ''aaaa'')]
                 (keyPath_of demo_world) demo_world)) (keyPath_of demo_world)
   = Some \<lparr>content = Json [(''key'', ''00''), (''validation_token'', ''aaaa'')], mode = 420\<rparr>
   \<and> (420 :: 32 word) AND 63 = 36"
  by (simp add: keyPath_of_demo_world saveKey_part000_def io_bind_def mkdirSync_recursive_def
        writeFileSync_def write_entry_def emit_def demo_world_def)

subsection \<open>The message of the binding check\<close>

text \<open>
  Claim C7. On a token mismatch the error names the last operator and the timestamp of
  the stale metadata record. \<open>validateKey\<close> of \<^verbatim>\<open>encrypt_env.js\<close> does
  (\<open>validateKey_names_operator\<close>); \<open>validateKey\<close> of the second copy throws a fixed
  message that names neither.
\<close>

theorem validateKey_part000_message:
  "validateKey_part000
     [(''key'', ''00''), (''validation_token'', ''aaaa'')]
     [(''last_encrypted_by'', ''Ann <ann@example.org>''),
      (''key_path'', ''/home/ann/.env_keys/shop/env_key.json''),
      (''key_status'', ''stable''),
      (''validation_token'', ''bbbb''),
      (''timestamp'', ''2024-01-01T00:00:00.000Z'')]
     demo_world
   = (Inl (Error ''The encryption key is not compatible with the current .env file.''), demo_world)"
  by (simp add: validateKey_part000_def io_throw_def)

subsection \<open>Splitting the envelope\<close>

text \<open>
  Claim C8. Decrypt splits the text at the first separator and takes everything after
  it, further separators included, as the ciphertext. The second copy of the script does
  (\<open>split_envelope_part000_first\<close>); \<open>decryptFile\<close> of \<^verbatim>\<open>encrypt_env.js\<close> takes only
  the segment between the first and the second separator.
\<close>

theorem split_envelope_drops_later_segments:
  "split_envelope ''aa:bb:cc'' = (''aa'', Some ''bb'')
   \<and> split_envelope_part000 ''aa:bb:cc'' = (''aa'', ''bb:cc'')"
  by (simp add: split_envelope_def split_envelope_part000_def)

subsection \<open>A failed decrypt leaves the files alone\<close>

text \<open>
  Claim C9. When decrypt fails (the file is missing, the key or the initialisation
  vector has the wrong length, the hexadecimal text or the final block is rejected), no
  file is changed, the protected file included: the write is the last step. This holds
  for \<open>decryptFile\<close> of both copies of the script.
\<close>

theorem decrypt_failure_keeps_files:
  "(fst (decryptFile D filePath key w) = Inl e \<longrightarrow>
      files (snd (decryptFile D filePath key w)) = files w)
   \<and> (fst (decryptFile_part000 D filePath key w) = Inl e \<longrightarrow>
      files (snd (decryptFile_part000 D filePath key w)) = files w)"
  by (auto simp add: decryptFile_def decryptFile_part000_def io_bind_def io_throw_def io_lift_def
        existsSync_def readFileSync_def createDecipheriv_def writeFileSync_def emit_def Let_def
      split: prod.splits sum.splits option.splits if_splits)

theorem decrypt_failure_keeps_files_witness:
  "fst (decryptFile aes256_decrypt_block envFilePath (Some ''00'') demo_world) = Inl InvalidIV
   \<and> files (snd (decryptFile aes256_decrypt_block envFilePath (Some ''00'') demo_world)) = files demo_world
   \<and> fst (decryptFile_part000 aes256_decrypt_block envFilePath (Some ''00'') demo_world) = Inl InvalidIV
   \<and> files (snd (decryptFile_part000 aes256_decrypt_block envFilePath (Some ''00'') demo_world))
       = files demo_world"
proof -
  have a: "fst (decryptFile aes256_decrypt_block envFilePath (Some ''00'') demo_world) = Inl InvalidIV"
    by (simp add: decryptFile_def io_bind_def io_lift_def existsSync_def readFileSync_def
          utf8_sanitize_def split_envelope_def Buffer_from_hex_def createDecipheriv_def
          check_key_iv_def emit_def fromHex_def utf16_units_def hexval_def demo_world_def envFilePath_def)
  have b: "fst (decryptFile_part000 aes256_decrypt_block envFilePath (Some ''00'') demo_world) = Inl InvalidIV"
    by (simp add: decryptFile_part000_def io_bind_def io_lift_def existsSync_def readFileSync_def
          utf8_sanitize_def split_envelope_part000_def Buffer_from_hex_def createDecipheriv_def
          check_key_iv_def emit_def fromHex_def utf16_units_def hexval_def demo_world_def envFilePath_def)
  show ?thesis
    using a b
      decrypt_failure_keeps_files[of aes256_decrypt_block envFilePath "Some ''00''" demo_world InvalidIV]
    by simp
qed

subsection \<open>Encrypt without a git identity\<close>

lemma encrypt_git_fails_existing_key:
  assumes "files w envFilePath = Some f"
    and "git_config w ''user.name'' = None \<or> git_config w ''user.email'' = None"
    and "files w (Abs cs) = Some kf" "content kf = Json kd" "map_of kd ''key'' = Some k"
        "length (fromHex k) = 32"
  shows "\<exists>w' evs.
      main_encrypt E (Abs cs) w = (Inl git_error, w')
    \<and> files w' = (files w)(envFilePath \<mapsto> f\<lparr>content :=
         Text (envelope E (fromHex k) (rand w 0 16) (utf8_sanitize (bytes_of (content f))))\<rparr>)
    \<and> trace w' = trace w
        @ [EvExists (Abs cs), EvExists (Abs cs), EvRead (Abs cs),
           EvExists envFilePath, EvRead envFilePath, EvRandom 16, EvCipher]
        @ EvWrite envFilePath
            (Text (envelope E (fromHex k) (rand w 0 16) (utf8_sanitize (bytes_of (content f)))))
        # [EvExists (Abs cs), EvRead (Abs cs), EvGit ''user.name''] @ evs"
  using assms
  by (cases "git_config w ''user.name''")
     (auto simp add: main_encrypt_def io_bind_def io_return_def
        loadKey_def readJSON_def updateMetadata_def
        getGitUser_def execSync_git_config_def
        encryptFile_def io_lift_def existsSync_def readFileSync_def
        randomBytes_def Buffer_from_hex_def createCipheriv_def check_key_iv_def
        writeFileSync_def emit_def envelope_def rand_def Let_def content_write_entry
        write_entry_Some write_entry_None
        envFilePath_def metadataFilePath_def)

lemma encrypt_git_fails_fresh_key:
  assumes "files w envFilePath = Some f"
    and "git_config w ''user.name'' = None \<or> git_config w ''user.email'' = None"
    and "files w (Abs cs) = None"
  shows "\<exists>w' evs.
      main_encrypt E (Abs cs) w = (Inl git_error, w')
    \<and> files w' envFilePath = Some (f\<lparr>content :=
         Text (envelope E (rand w 16 32) (rand w 48 16) (utf8_sanitize (bytes_of (content f))))\<rparr>)
    \<and> files w' metadataFilePath = files w metadataFilePath
    \<and> trace w' = trace w
        @ [EvExists (Abs cs), EvRandom 16, EvRandom 32, EvMkdir (dirname (Abs cs)),
           EvWrite (Abs cs) (Json [(''key'', toHex (rand w 16 32)),
                                   (''validation_token'', toHex (rand w 0 16))]),
           EvExists envFilePath, EvRead envFilePath, EvRandom 16, EvCipher]
        @ EvWrite envFilePath
            (Text (envelope E (rand w 16 32) (rand w 48 16) (utf8_sanitize (bytes_of (content f)))))
        # [EvExists (Abs cs), EvRead (Abs cs), EvGit ''user.name''] @ evs"
  using assms
  by (cases "git_config w ''user.name''")
     (auto simp add: main_encrypt_def io_bind_def io_return_def generateValidationToken_def
        saveKey_def mkdirSync_recursive_def
        loadKey_def readJSON_def updateMetadata_def
        getGitUser_def execSync_git_config_def
        encryptFile_def io_lift_def existsSync_def readFileSync_def
        randomBytes_def Buffer_from_hex_def createCipheriv_def check_key_iv_def
        writeFileSync_def emit_def envelope_def rand_def Let_def content_write_entry
        write_entry_Some write_entry_None fromHex_toHex add.commute
        envFilePath_def metadataFilePath_def)

lemma encrypt_trace_fresh_key:
  assumes "files w envFilePath = Some f" "files w (Abs cs) = None"
  shows "take 13 (drop (length (trace w)) (trace (snd (main_encrypt E (Abs cs) w)))) =
      [EvExists (Abs cs), EvRandom 16, EvRandom 32, EvMkdir (dirname (Abs cs)),
       EvWrite (Abs cs) (Json [(''key'', toHex (rand w 16 32)),
                               (''validation_token'', toHex (rand w 0 16))]),
       EvExists envFilePath, EvRead envFilePath, EvRandom 16, EvCipher,
       EvWrite envFilePath
         (Text (envelope E (rand w 16 32) (rand w 48 16) (utf8_sanitize (bytes_of (content f))))),
       EvExists (Abs cs), EvRead (Abs cs), EvGit ''user.name'']"
  using assms
  by (simp add: main_encrypt_def io_bind_def io_return_def generateValidationToken_def
        saveKey_def mkdirSync_recursive_def
        loadKey_def readJSON_def updateMetadata_def
        getGitUser_def execSync_git_config_def io_throw_def
        toISOString_now_def console_log_def property_def
        encryptFile_def io_lift_def existsSync_def readFileSync_def
        randomBytes_def Buffer_from_hex_def createCipheriv_def check_key_iv_def
        writeFileSync_def emit_def envelope_def rand_def Let_def content_write_entry
        write_entry_Some write_entry_None fromHex_toHex add.commute
        envFilePath_def metadataFilePath_def split: option.splits)

lemma encrypt_trace_existing_key:
  assumes "files w envFilePath = Some f"
    and "files w (Abs cs) = Some kf" "content kf = Json kd" "map_of kd ''key'' = Some k"
        "length (fromHex k) = 32"
  shows "take 11 (drop (length (trace w)) (trace (snd (main_encrypt E (Abs cs) w)))) =
      [EvExists (Abs cs), EvExists (Abs cs), EvRead (Abs cs),
       EvExists envFilePath, EvRead envFilePath, EvRandom 16, EvCipher,
       EvWrite envFilePath
         (Text (envelope E (fromHex k) (rand w 0 16) (utf8_sanitize (bytes_of (content f))))),
       EvExists (Abs cs), EvRead (Abs cs), EvGit ''user.name'']"
  using assms
  by (simp add: main_encrypt_def io_bind_def io_return_def
        loadKey_def readJSON_def updateMetadata_def
        getGitUser_def execSync_git_config_def io_throw_def
        toISOString_now_def console_log_def property_def
        encryptFile_def io_lift_def existsSync_def readFileSync_def
        randomBytes_def Buffer_from_hex_def createCipheriv_def check_key_iv_def
        writeFileSync_def emit_def envelope_def rand_def Let_def content_write_entry
        write_entry_Some write_entry_None
        envFilePath_def metadataFilePath_def split: option.splits)

text \<open>
  Claim C10. During encrypt the protected file is overwritten with the envelope before
  the operator identity is resolved. In every run of encrypt on a world where the
  protected file exists and the key is usable (there is no key file, so that a key is
  generated, or the stored key decodes to 32 bytes), whatever the git configuration is,
  the trace of the run begins with the events \<open>pre\<close> of obtaining the key and of reading
  and enciphering the file, then the write of the protected file with the envelope \<open>X\<close>
  (the data under the key bytes \<open>kb\<close>, the stored or the new key, and the vector \<open>iv\<close>
  drawn in the run), then the reading of the key file by \<open>updateMetadata\<close>, and only then
  the first query to git. When git yields no user name or no e-mail address, the run
  fails with the git error, the protected file holds \<open>X\<close>, and the metadata file is as
  it was before the run (absent, or with its previous content).
\<close>

theorem encrypt_overwrites_before_identity:
  assumes "files w envFilePath = Some f"
    and "files w (keyPath_of w) = None \<and> kb = rand w 16 32 \<and> iv = rand w 48 16
           \<and> pre = [EvExists (keyPath_of w), EvRandom 16, EvRandom 32,
                    EvMkdir (dirname (keyPath_of w)),
                    EvWrite (keyPath_of w) (Json [(''key'', toHex (rand w 16 32)),
                                                  (''validation_token'', toHex (rand w 0 16))]),
                    EvExists envFilePath, EvRead envFilePath, EvRandom 16, EvCipher]
         \<or> (\<exists>kf kd k. files w (keyPath_of w) = Some kf \<and> content kf = Json kd
               \<and> map_of kd ''key'' = Some k \<and> length (fromHex k) = 32 \<and> kb = fromHex k)
           \<and> iv = rand w 0 16
           \<and> pre = [EvExists (keyPath_of w), EvExists (keyPath_of w), EvRead (keyPath_of w),
                    EvExists envFilePath, EvRead envFilePath, EvRandom 16, EvCipher]"
    and "X = toHex iv @ '':'' @ toHex (cbc_encrypt E kb iv
                 (pkcs7_pad (map byte_of_char (utf8_sanitize (bytes_of (content f))))))"
  shows "take (length pre + 4) (drop (length (trace w)) (trace (snd (main_try E D ''encrypt'' w))))
           = pre @ [EvWrite envFilePath (Text X), EvExists (keyPath_of w), EvRead (keyPath_of w),
                    EvGit ''user.name'']
       \<and> (git_config w ''user.name'' = None \<or> git_config w ''user.email'' = None \<longrightarrow>
             fst (main_try E D ''encrypt'' w) = Inl git_error
           \<and> files (snd (main_try E D ''encrypt'' w)) envFilePath = Some (f\<lparr>content := Text X\<rparr>)
           \<and> files (snd (main_try E D ''encrypt'' w)) metadataFilePath = files w metadataFilePath)"
proof -
  obtain cs where kp: "keyPath_of w = Abs cs"
    using keyPath_of_eq by blast
  have run: "main_try E D ''encrypt'' w = main_encrypt E (Abs cs) w"
    by (simp add: main_try_def kp)
  from assms(2) show ?thesis
  proof (elim disjE conjE exE)
    assume h: "files w (keyPath_of w) = None" "kb = rand w 16 32" "iv = rand w 48 16"
      "pre = [EvExists (keyPath_of w), EvRandom 16, EvRandom 32,
                    EvMkdir (dirname (keyPath_of w)),
                    EvWrite (keyPath_of w) (Json [(''key'', toHex (rand w 16 32)),
                                                  (''validation_token'', toHex (rand w 0 16))]),
                    EvExists envFilePath, EvRead envFilePath, EvRandom 16, EvCipher]"
    have nk: "files w (Abs cs) = None" using h(1) by (simp add: kp)
    have X: "X = envelope E (rand w 16 32) (rand w 48 16) (utf8_sanitize (bytes_of (content f)))"
      by (simp add: assms(3) h envelope_def cipher_update_final_def)
    have a: "take (length pre + 4) (drop (length (trace w)) (trace (snd (main_try E D ''encrypt'' w))))
           = pre @ [EvWrite envFilePath (Text X), EvExists (keyPath_of w), EvRead (keyPath_of w),
                    EvGit ''user.name'']"
      using encrypt_trace_fresh_key[OF assms(1) nk, of E] by (simp add: run h(4) kp X)
    have b: "fst (main_try E D ''encrypt'' w) = Inl git_error
           \<and> files (snd (main_try E D ''encrypt'' w)) envFilePath = Some (f\<lparr>content := Text X\<rparr>)
           \<and> files (snd (main_try E D ''encrypt'' w)) metadataFilePath = files w metadataFilePath"
      if g: "git_config w ''user.name'' = None \<or> git_config w ''user.email'' = None"
      using encrypt_git_fails_fresh_key[OF assms(1) g nk, of E] by (auto simp add: run X)
    show ?thesis using a b by blast
  next
    fix kf kd k
    assume h: "files w (keyPath_of w) = Some kf" "content kf = Json kd"
      "map_of kd ''key'' = Some k" "length (fromHex k) = 32" "kb = fromHex k" "iv = rand w 0 16"
      "pre = [EvExists (keyPath_of w), EvExists (keyPath_of w), EvRead (keyPath_of w),
                    EvExists envFilePath, EvRead envFilePath, EvRandom 16, EvCipher]"
    have key: "files w (Abs cs) = Some kf" using h(1) by (simp add: kp)
    have X: "X = envelope E (fromHex k) (rand w 0 16) (utf8_sanitize (bytes_of (content f)))"
      by (simp add: assms(3) h envelope_def cipher_update_final_def)
    have a: "take (length pre + 4) (drop (length (trace w)) (trace (snd (main_try E D ''encrypt'' w))))
           = pre @ [EvWrite envFilePath (Text X), EvExists (keyPath_of w), EvRead (keyPath_of w),
                    EvGit ''user.name'']"
      using encrypt_trace_existing_key[OF assms(1) key h(2,3,4), of E] by (simp add: run h(7) kp X)
    have b: "fst (main_try E D ''encrypt'' w) = Inl git_error
           \<and> files (snd (main_try E D ''encrypt'' w)) envFilePath = Some (f\<lparr>content := Text X\<rparr>)
           \<and> files (snd (main_try E D ''encrypt'' w)) metadataFilePath = files w metadataFilePath"
      if g: "git_config w ''user.name'' = None \<or> git_config w ''user.email'' = None"
      using encrypt_git_fails_existing_key[OF assms(1) g key h(2,3,4), of E]
      by (auto simp add: run X envFilePath_def metadataFilePath_def)
    show ?thesis using a b by blast
  qed
qed


theorem encrypt_overwrites_before_identity_witness:
  "files no_git_world envFilePath = Some \<lparr>content = Text ''secret=1'', mode = 420\<rparr>
   \<and> files no_git_world (keyPath_of no_git_world) = None
   \<and> git_config no_git_world ''user.name'' = None
   \<and> take 13 (trace (snd (main_try aes256_encrypt_block aes256_decrypt_block ''encrypt''
                 no_git_world)))
       = [EvExists (keyPath_of no_git_world), EvRandom 16, EvRandom 32,
          EvMkdir (dirname (keyPath_of no_git_world)),
          EvWrite (keyPath_of no_git_world)
            (Json [(''key'', toHex (rand no_git_world 16 32)),
                   (''validation_token'', toHex (rand no_git_world 0 16))]),
          EvExists envFilePath, EvRead envFilePath, EvRandom 16, EvCipher,
          EvWrite envFilePath
            (Text (toHex (rand no_git_world 48 16) @ '':'' @
               toHex (cbc_encrypt aes256_encrypt_block (rand no_git_world 16 32)
                        (rand no_git_world 48 16) (pkcs7_pad (map byte_of_char ''secret=1''))))),
          EvExists (keyPath_of no_git_world), EvRead (keyPath_of no_git_world),
          EvGit ''user.name'']
   \<and> fst (main_try aes256_encrypt_block aes256_decrypt_block ''encrypt'' no_git_world)
       = Inl git_error
   \<and> files (snd (main_try aes256_encrypt_block aes256_decrypt_block ''encrypt'' no_git_world))
         envFilePath
       = Some \<lparr>content = Text (toHex (rand no_git_world 48 16) @ '':'' @
               toHex (cbc_encrypt aes256_encrypt_block (rand no_git_world 16 32)
                        (rand no_git_world 48 16) (pkcs7_pad (map byte_of_char ''secret=1'')))),
               mode = 420\<rparr>
   \<and> files (snd (main_try aes256_encrypt_block aes256_decrypt_block ''encrypt'' no_git_world))
         metadataFilePath = None"
proof -
  have kp: "keyPath_of no_git_world = Abs [''home'', ''ann'', ''.env_keys'', ''shop'', ''env_key.json'']"
    by (simp add: keyPath_of_def getKeyDirectory_def getProjectName_def demo_world_def
          no_git_world_def)
  have e: "files no_git_world envFilePath = Some \<lparr>content = Text ''secret=1'', mode = 420\<rparr>"
    by (simp add: no_git_world_def demo_world_def envFilePath_def)
  have k: "files no_git_world (keyPath_of no_git_world) = None"
    by (simp add: kp) (simp add: no_git_world_def demo_world_def)
  have g: "git_config no_git_world ''user.name'' = None"
    by (simp add: no_git_world_def)
  have s: "utf8_sanitize ''secret=1'' = ''secret=1''"
    by (simp add: utf8_sanitize_def)
  have m: "files no_git_world metadataFilePath = None"
    by (simp add: no_git_world_def demo_world_def metadataFilePath_def)
  have t: "trace no_git_world = []"
    by (simp add: no_git_world_def demo_world_def)
  show ?thesis
    using encrypt_overwrites_before_identity[where w = no_git_world
        and E = aes256_encrypt_block and D = aes256_decrypt_block
        and f = "\<lparr>content = Text ''secret=1'', mode = 420\<rparr>"
        and kb = "rand no_git_world 16 32" and iv = "rand no_git_world 48 16"
        and pre = "[EvExists (keyPath_of no_git_world), EvRandom 16, EvRandom 32,
                    EvMkdir (dirname (keyPath_of no_git_world)),
                    EvWrite (keyPath_of no_git_world)
                      (Json [(''key'', toHex (rand no_git_world 16 32)),
                             (''validation_token'', toHex (rand no_git_world 0 16))]),
                    EvExists envFilePath, EvRead envFilePath, EvRandom 16, EvCipher]"
        and X = "toHex (rand no_git_world 48 16) @ '':'' @
               toHex (cbc_encrypt aes256_encrypt_block (rand no_git_world 16 32)
                        (rand no_git_world 48 16)
                        (pkcs7_pad (map byte_of_char (utf8_sanitize (bytes_of
                           (content \<lparr>content = Text ''secret=1'', mode = 420\<rparr>))))))",
        OF e _ refl] e k g
    by (simp add: s m t)
qed
subsection \<open>Encrypting and decrypting again\<close>

lemma length_rand: "length (rand w off n) = n"
  by (simp add: rand_def)

lemma length_demo_key: "length (fromHex demo_key) = 32"
  by (simp add: demo_key_def fromHex_def utf16_units_def hexval_def)

text \<open>
  A key text of 64 digits followed by U+0130 twice decodes to 33 bytes, which
  \<^verbatim>\<open>createCipheriv\<close> rejects.
\<close>

lemma demo_key_U0130:
  "length (fromHex (demo_key @ [CHR 0xC4, CHR 0xB0, CHR 0xC4, CHR 0xB0])) = 33"
  "check_key_iv (fromHex (demo_key @ [CHR 0xC4, CHR 0xB0, CHR 0xC4, CHR 0xB0])) (rand w 0 16)
     = Inl InvalidKeyLength"
  by (simp_all add: demo_key_def fromHex_def utf16_units_def units_of_code_point_def hexval_def
        check_key_iv_def rand_def)

lemma length_envelope: "2 * length iv < length (envelope E kb iv data)"
  by (simp add: envelope_def length_toHex)

lemma decryptFile_hex_run:
  assumes "files w p = Some f" "content f = Text (toHex iv @ CHR '':'' # toHex c)"
    and "length iv = 16" "length (fromHex k) = 32"
    and "decipher_update_final D (fromHex k, iv) (Some (toHex c)) = Inr t"
  shows "decryptFile D p (Some k) w =
    (Inr (),
     w\<lparr>files := (files w)(p \<mapsto> f\<lparr>content := Text t\<rparr>),
       trace := trace w @ [EvExists p, EvRead p, EvDecipher, EvWrite p (Text t)]\<rparr>)"
proof -
  have "ascii (toHex iv @ CHR '':'' # toHex c)"
    by (simp add: ascii_append ascii_Cons toHex_ascii)
  then have san: "utf8_sanitize (toHex iv @ CHR '':'' # toHex c) = toHex iv @ CHR '':'' # toHex c"
    by (rule utf8_sanitize_ascii)
  show ?thesis
    using assms
    by (simp add: decryptFile_def io_bind_def io_lift_def existsSync_def readFileSync_def
          Buffer_from_hex_def createDecipheriv_def check_key_iv_def san split_envelope_toHex
          fromHex_toHex writeFileSync_def write_entry_def emit_def Let_def)
qed

lemma roundtrip_file:
  assumes "cipher_ok E D" "length (fromHex K) = 32" "files w p = Some f"
    and "utf8_sanitize (utf8_sanitize (bytes_of (content f))) = utf8_sanitize (bytes_of (content f))"
  shows "fst (encryptFile E p (Some K) w) = Inr ()
       \<and> fst (decryptFile D p (Some K) (snd (encryptFile E p (Some K) w))) = Inr ()
       \<and> files (snd (decryptFile D p (Some K) (snd (encryptFile E p (Some K) w))))
          = (files w)(p \<mapsto> f\<lparr>content := Text (utf8_sanitize (bytes_of (content f)))\<rparr>)"
proof -
  define data where "data = utf8_sanitize (bytes_of (content f))"
  define iv where "iv = map (entropy w) [drawn w ..< drawn w + 16]"
  define f1 where "f1 = f\<lparr>content := Text (envelope E (fromHex K) iv data)\<rparr>"
  define w1 where "w1 = w\<lparr>drawn := drawn w + 16, files := (files w)(p \<mapsto> f1),
       trace := trace w @ [EvExists p, EvRead p, EvRandom 16, EvCipher,
                  EvWrite p (Text (envelope E (fromHex K) iv data))]\<rparr>"
  have enc: "encryptFile E p (Some K) w = (Inr (), w1)"
    using encryptFile_run[OF assms(3,2), of E] by (simp add: w1_def f1_def iv_def data_def)
  have dec: "decryptFile D p (Some K) w1 =
    (Inr (), w1\<lparr>files := (files w1)(p \<mapsto> f1\<lparr>content := Text data\<rparr>),
       trace := trace w1 @ [EvExists p, EvRead p, EvDecipher, EvWrite p (Text data)]\<rparr>)"
    by (rule decryptFile_run[OF assms(1), where iv = iv])
       (simp_all add: w1_def f1_def iv_def assms(2) assms(4)[folded data_def])
  show ?thesis
    by (simp add: enc dec) (simp add: w1_def f1_def data_def)
qed

text \<open>
  Claim C2, as amended. For every text \<open>P\<close> that is well-formed UTF-8 (the decoder leaves
  it as it is) and every key text \<open>K\<close> that \<^verbatim>\<open>Buffer.from(K, "hex")\<close> decodes to 32 bytes
  (64 hexadecimal digits, for one), encrypting the file that holds \<open>P\<close> under \<open>K\<close> and
  decrypting the result under \<open>K\<close> both succeed and restore the file system exactly, the
  protected file with content \<open>P\<close> included.
\<close>

theorem encrypt_decrypt_roundtrip:
  assumes "cipher_ok E D" "length (fromHex K) = 32" "utf8_sanitize P = P"
    and "files w filePath = Some f" "content f = Text P"
  shows "fst (encryptFile E filePath (Some K) w) = Inr ()
       \<and> fst (decryptFile D filePath (Some K) (snd (encryptFile E filePath (Some K) w))) = Inr ()
       \<and> files (snd (decryptFile D filePath (Some K) (snd (encryptFile E filePath (Some K) w))))
          = files w"
proof -
  have f: "f\<lparr>content := Text P\<rparr> = f"
    using assms(5) by simp
  have "(files w)(filePath \<mapsto> f) = files w"
    using assms(4) by (rule map_upd_triv)
  then show ?thesis
    using roundtrip_file[OF assms(1,2,4)] assms(3,5) by (simp add: f)
qed

lemma utf8_sanitize_examples:
  "utf8_sanitize [CHR 0xC3, CHR 0xA9] = [CHR 0xC3, CHR 0xA9]"
  "utf8_sanitize [CHR 0xE2, CHR 0x82, CHR 0xAC] = [CHR 0xE2, CHR 0x82, CHR 0xAC]"
  "utf8_sanitize [CHR 0xF0, CHR 0x9F, CHR 0x98, CHR 0x80] = [CHR 0xF0, CHR 0x9F, CHR 0x98, CHR 0x80]"
  "utf8_sanitize [CHR 0xC3, CHR 0x28] = [CHR 0xEF, CHR 0xBF, CHR 0xBD, CHR 0x28]"
  by (simp_all add: utf8_sanitize_def REPLACEMENT_def)

lemma sanitize_secret: "utf8_sanitize ''secret=1'' = ''secret=1''"
  by (simp add: utf8_sanitize_def)

theorem encrypt_decrypt_roundtrip_witness:
  "cipher_ok aes256_encrypt_block aes256_decrypt_block \<and> length (fromHex demo_key) = 32
   \<and> utf8_sanitize ''secret=1'' = ''secret=1''
   \<and> files demo_world envFilePath = Some \<lparr>content = Text ''secret=1'', mode = 420\<rparr>
   \<and> fst (encryptFile aes256_encrypt_block envFilePath (Some demo_key) demo_world) = Inr ()
   \<and> fst (decryptFile aes256_decrypt_block envFilePath (Some demo_key)
             (snd (encryptFile aes256_encrypt_block envFilePath (Some demo_key) demo_world))) = Inr ()
   \<and> files (snd (decryptFile aes256_decrypt_block envFilePath (Some demo_key)
             (snd (encryptFile aes256_encrypt_block envFilePath (Some demo_key) demo_world))))
      = files demo_world"
proof -
  have e: "files demo_world envFilePath = Some \<lparr>content = Text ''secret=1'', mode = 420\<rparr>"
    by (simp add: demo_world_def envFilePath_def)
  show ?thesis
    using encrypt_decrypt_roundtrip[OF aes256_ok length_demo_key sanitize_secret e]
      aes256_ok length_demo_key sanitize_secret e
    by simp
qed

text \<open>
  The claim as stated, for every byte sequence, fails on a file that is not UTF-8 text:
  the file holding the single byte FF is read as U+FFFD, and the round trip leaves the
  three bytes EF BF BD in its place.
\<close>

theorem binary_file_not_restored:
  "files binary_world envFilePath = Some \<lparr>content = Text [CHR 0xFF], mode = 420\<rparr>
   \<and> files (snd (decryptFile aes256_decrypt_block envFilePath (Some demo_key)
               (snd (encryptFile aes256_encrypt_block envFilePath (Some demo_key) binary_world)))) envFilePath
      = Some \<lparr>content = Text [CHR 0xEF, CHR 0xBF, CHR 0xBD], mode = 420\<rparr>"
proof -
  have e: "files binary_world envFilePath = Some \<lparr>content = Text [CHR 0xFF], mode = 420\<rparr>"
    by (simp add: binary_world_def envFilePath_def)
  have s: "utf8_sanitize [CHR 0xFF] = [CHR 0xEF, CHR 0xBF, CHR 0xBD]"
    by (simp add: utf8_sanitize_def REPLACEMENT_def)
  have s2: "utf8_sanitize [CHR 0xEF, CHR 0xBF, CHR 0xBD] = [CHR 0xEF, CHR 0xBF, CHR 0xBD]"
    by (simp add: utf8_sanitize_def)
  show ?thesis
    using roundtrip_file[OF aes256_ok length_demo_key e] e
    by (simp add: s s2)
qed

subsection \<open>A changed ciphertext\<close>

lemma multiple_16_ge_48:
  "length (p::byte list) mod 16 = 0 \<Longrightarrow> 32 < length p \<Longrightarrow> 48 \<le> length p"
  by presburger

lemma tampered_plaintext:
  assumes ok: "cipher_ok E D" and kb: "length kb = 32" and iv: "length iv = 16"
    and data: "32 \<le> length data" and j: "j < 16"
  shows "\<exists>a. cbc_decrypt D kb iv ((cbc_encrypt E kb iv (pkcs7_pad data))[j := b])
               = a @ drop 32 (pkcs7_pad data)
           \<and> length (cbc_encrypt E kb iv (pkcs7_pad data)) = length (pkcs7_pad data)"
proof -
  define p where "p = pkcs7_pad data"
  have p: "length p mod 16 = 0" "48 \<le> length p"
    using length_pkcs7_pad[of data] length_pkcs7_pad_gt[of data] data
    by (auto simp add: p_def intro: multiple_16_ge_48)
  define c1 where "c1 = E kb (xor_bytes (take 16 p) iv)"
  define p1 where "p1 = drop 16 p"
  define c2 where "c2 = E kb (xor_bytes (take 16 p1) c1)"
  define p2 where "p2 = drop 16 p1"
  define r where "r = cbc_encrypt E kb c2 p2"
  have ne: "p \<noteq> []" "p1 \<noteq> []"
    using p by (auto simp add: p1_def)
  have lc1: "length c1 = 16"
    using ok kb iv p by (simp add: c1_def cipher_ok_def length_xor_bytes)
  have p1: "length p1 mod 16 = 0" "32 \<le> length p1"
    using p multiple_16_drop[of p] by (simp_all add: p1_def)
  have lc2: "length c2 = 16"
    using ok kb lc1 p1 by (simp add: c2_def cipher_ok_def length_xor_bytes)
  have p2: "length p2 mod 16 = 0"
    using p1 multiple_16_drop[of p1] by (simp add: p2_def)
  have r: "length r = length p2" "cbc_decrypt D kb c2 r = p2"
    using cbc_encrypt_props[OF ok kb lc2 p2] by (simp_all add: r_def)
  have ct: "cbc_encrypt E kb iv p = c1 @ c2 @ r"
    using ne by (simp add: cbc_encrypt_step[of p] cbc_encrypt_step[of p1]
        c1_def[symmetric] p1_def[symmetric] c2_def[symmetric] p2_def[symmetric] r_def)
  have upd: "(c1 @ c2 @ r)[j := b] = c1[j := b] @ c2 @ r"
    using j lc1 by (simp add: list_update_append1)
  have dec: "cbc_decrypt D kb iv (c1[j := b] @ c2 @ r)
               = (xor_bytes (D kb (c1[j := b])) iv @ xor_bytes (D kb c2) (c1[j := b])) @ p2"
    using lc1 lc2 by (simp add: cbc_decrypt_append r)
  have len: "length (cbc_encrypt E kb iv p) = length p"
    using cbc_encrypt_props[OF ok kb iv p(1)] by simp
  show ?thesis
    using dec len
    by (auto simp add: p_def[symmetric] ct upd p2_def p1_def)
qed

lemma pkcs7_unpad_tail:
  assumes "32 \<le> length data"
  shows "pkcs7_unpad (a @ drop 32 (pkcs7_pad data)) = Some (a @ drop 32 data)"
proof -
  define n where "n = 16 - length data mod 16"
  have n: "0 < n" "n \<le> 16" by (simp_all add: n_def)
  have "a @ drop 32 (pkcs7_pad data) = (a @ drop 32 data) @ replicate n (of_nat n)"
    using assms by (simp add: pkcs7_pad_def n_def)
  then show ?thesis
    using pkcs7_unpad_replicate[OF n, of "a @ drop 32 data"] by simp
qed

text \<open>
  Claim C3, as amended. A changed byte of the ciphertext need not make decrypt fail: for
  every envelope written by encrypt for data of at least 32 bytes (three or more
  ciphertext blocks), replacing any byte of the first ciphertext block by any value
  leaves the check of the final padding satisfied, so that decrypt under the same key
  succeeds and overwrites the protected file with the decoding of the altered plaintext.
\<close>

theorem tampered_first_block_accepted:
  assumes "cipher_ok E D" "length (fromHex k) = 32" "length iv = 16"
    and "32 \<le> length data" "j < 16"
    and "files w p = Some f"
    and "content f = Text (toHex iv @ '':'' @
           toHex ((cbc_encrypt E (fromHex k) iv (pkcs7_pad (map byte_of_char data)))[j := b]))"
  shows "\<exists>q. pkcs7_unpad (cbc_decrypt D (fromHex k) iv
                 ((cbc_encrypt E (fromHex k) iv (pkcs7_pad (map byte_of_char data)))[j := b]))
               = Some q
           \<and> decryptFile D p (Some k) w =
               (Inr (),
                w\<lparr>files := (files w)(p \<mapsto> f\<lparr>content := Text (utf8_sanitize (map char_of_byte q))\<rparr>),
                  trace := trace w @ [EvExists p, EvRead p, EvDecipher,
                             EvWrite p (Text (utf8_sanitize (map char_of_byte q)))]\<rparr>)"
proof -
  define bytes where "bytes = map byte_of_char data"
  define ct where "ct = (cbc_encrypt E (fromHex k) iv (pkcs7_pad bytes))[j := b]"
  have lb: "32 \<le> length bytes"
    using assms(4) by (simp add: bytes_def)
  obtain a where a: "cbc_decrypt D (fromHex k) iv ct = a @ drop 32 (pkcs7_pad bytes)"
    and len: "length (cbc_encrypt E (fromHex k) iv (pkcs7_pad bytes)) = length (pkcs7_pad bytes)"
    using tampered_plaintext[OF assms(1,2,3) lb assms(5), of b] by (auto simp add: ct_def)
  define q where "q = a @ drop 32 bytes"
  have un: "pkcs7_unpad (cbc_decrypt D (fromHex k) iv ct) = Some q"
    unfolding a q_def using lb by (rule pkcs7_unpad_tail)
  have lct: "length ct = length (pkcs7_pad bytes)"
    by (simp add: ct_def len)
  have ne: "ct \<noteq> []" "length ct mod 16 = 0"
    using lct pkcs7_pad_nonempty[of bytes] length_pkcs7_pad[of bytes] by auto
  have even: "\<not> odd (js_length (toHex ct))"
    by (simp add: js_length_ascii toHex_ascii length_toHex)
  have fin: "decipher_update_final D (fromHex k, iv) (Some (toHex ct))
               = Inr (utf8_sanitize (map char_of_byte q))"
    using ne even by (simp add: decipher_update_final_def fromHex_toHex un)
  have c: "content f = Text (toHex iv @ CHR '':'' # toHex ct)"
    using assms(7) by (simp add: ct_def bytes_def)
  show ?thesis
    using un decryptFile_hex_run[OF assms(6) c assms(3,2) fin]
    by (auto simp add: ct_def bytes_def)
qed

subsection \<open>The cipher on concrete blocks\<close>

lemmas aes_defs = sub_byte_def inv_sub_byte_def xtime_def gm3_def gm9_def gm11_def gm13_def gm14_def
  mix4_def inv_mix4_def sub_bytes_def inv_sub_bytes_def shift_rows_def inv_shift_rows_def
  mix_columns_def inv_mix_columns_def rcon_def schedule_core_def next_word_def key_words_def
  key_expansion_def round_key_def
  aes_round_def inv_aes_round_def encrypt_rounds_def decrypt_rounds_def
  aes256_encrypt_block_def aes256_decrypt_block_def xor_bytes_def

lemma fromHex_demo_key:
  "fromHex demo_key =
     [0x00, 0x01, 0x02, 0x03, 0x04, 0x05, 0x06, 0x07, 0x08, 0x09, 0x0a, 0x0b, 0x0c, 0x0d, 0x0e, 0x0f,
      0x10, 0x11, 0x12, 0x13, 0x14, 0x15, 0x16, 0x17, 0x18, 0x19, 0x1a, 0x1b, 0x1c, 0x1d, 0x1e, 0x1f]"
  by (simp add: demo_key_def fromHex_def utf16_units_def hexval_def)

text \<open>The example of FIPS 197, appendix C.3.\<close>

lemma aes256_fips197:
  "aes256_encrypt_block
     [0x00, 0x01, 0x02, 0x03, 0x04, 0x05, 0x06, 0x07, 0x08, 0x09, 0x0a, 0x0b, 0x0c, 0x0d, 0x0e, 0x0f,
      0x10, 0x11, 0x12, 0x13, 0x14, 0x15, 0x16, 0x17, 0x18, 0x19, 0x1a, 0x1b, 0x1c, 0x1d, 0x1e, 0x1f]
     [0x00, 0x11, 0x22, 0x33, 0x44, 0x55, 0x66, 0x77, 0x88, 0x99, 0xaa, 0xbb, 0xcc, 0xdd, 0xee, 0xff]
   = [0x8e, 0xa2, 0xb7, 0xca, 0x51, 0x67, 0x45, 0xbf, 0xea, 0xfc, 0x49, 0x90, 0x4b, 0x49, 0x60, 0x89]"
  by (simp add: aes_defs sbox_def upt_rec)

text \<open>
  The three blocks of the 40-byte file of \<open>long_world\<close> under \<open>demo_key\<close> and the
  vector that the random source of \<open>long_world\<close> yields, and the first ciphertext block
  with its first byte changed. The values agree with those of OpenSSL.
\<close>

lemma demo_block1:
  "aes256_encrypt_block
     [0x00, 0x01, 0x02, 0x03, 0x04, 0x05, 0x06, 0x07, 0x08, 0x09, 0x0a, 0x0b, 0x0c, 0x0d, 0x0e, 0x0f,
      0x10, 0x11, 0x12, 0x13, 0x14, 0x15, 0x16, 0x17, 0x18, 0x19, 0x1a, 0x1b, 0x1c, 0x1d, 0x1e, 0x1f]
     [0x42, 0x5a, 0x58, 0x47, 0x54, 0x63, 0x74, 0x09, 0x0b, 0x73, 0x7b, 0x63, 0x63, 0x6b, 0x53, 0x5b]
   = [0x47, 0x45, 0x1c, 0x19, 0x72, 0x91, 0x9c, 0xf2, 0x0f, 0x28, 0x93, 0x63, 0x29, 0x0a, 0x24, 0x47]"
  by (simp add: aes_defs sbox_def upt_rec)

lemma demo_block2:
  "aes256_encrypt_block
     [0x00, 0x01, 0x02, 0x03, 0x04, 0x05, 0x06, 0x07, 0x08, 0x09, 0x0a, 0x0b, 0x0c, 0x0d, 0x0e, 0x0f,
      0x10, 0x11, 0x12, 0x13, 0x14, 0x15, 0x16, 0x17, 0x18, 0x19, 0x1a, 0x1b, 0x1c, 0x1d, 0x1e, 0x1f]
     [0x7f, 0x7c, 0x7d, 0x7b, 0x11, 0xf5, 0xf9, 0x94, 0x3f, 0x19, 0xa1, 0x50, 0x1d, 0x3f, 0x12, 0x70]
   = [0x5c, 0x84, 0xf1, 0xf6, 0xe8, 0xfb, 0x6f, 0xa2, 0xc2, 0x88, 0xec, 0xb4, 0x07, 0x82, 0x06, 0x48]"
  by (simp add: aes_defs sbox_def upt_rec)

lemma demo_block3:
  "aes256_encrypt_block
     [0x00, 0x01, 0x02, 0x03, 0x04, 0x05, 0x06, 0x07, 0x08, 0x09, 0x0a, 0x0b, 0x0c, 0x0d, 0x0e, 0x0f,
      0x10, 0x11, 0x12, 0x13, 0x14, 0x15, 0x16, 0x17, 0x18, 0x19, 0x1a, 0x1b, 0x1c, 0x1d, 0x1e, 0x1f]
     [0x64, 0xbd, 0x90, 0x94, 0x8b, 0x9f, 0x0a, 0xc4, 0xca, 0x80, 0xe4, 0xbc, 0x0f, 0x8a, 0x0e, 0x40]
   = [0xa8, 0x94, 0xf1, 0xad, 0xaa, 0xba, 0x14, 0x99, 0x11, 0x2b, 0x52, 0x38, 0xb9, 0xc1, 0xd1, 0xb5]"
  by (simp add: aes_defs sbox_def upt_rec)

lemma demo_block1_tampered:
  "aes256_decrypt_block
     [0x00, 0x01, 0x02, 0x03, 0x04, 0x05, 0x06, 0x07, 0x08, 0x09, 0x0a, 0x0b, 0x0c, 0x0d, 0x0e, 0x0f,
      0x10, 0x11, 0x12, 0x13, 0x14, 0x15, 0x16, 0x17, 0x18, 0x19, 0x1a, 0x1b, 0x1c, 0x1d, 0x1e, 0x1f]
     [0x46, 0x45, 0x1c, 0x19, 0x72, 0x91, 0x9c, 0xf2, 0x0f, 0x28, 0x93, 0x63, 0x29, 0x0a, 0x24, 0x47]
   = [0x1e, 0x62, 0xc4, 0xf3, 0x0c, 0x9a, 0xc2, 0x27, 0x8e, 0x4e, 0x75, 0xf9, 0x82, 0x59, 0x4b, 0x91]"
  by (simp add: aes_defs sbox_def inv_sbox_def upt_rec)

lemma demo_block2_inverse:
  "aes256_decrypt_block
     [0x00, 0x01, 0x02, 0x03, 0x04, 0x05, 0x06, 0x07, 0x08, 0x09, 0x0a, 0x0b, 0x0c, 0x0d, 0x0e, 0x0f,
      0x10, 0x11, 0x12, 0x13, 0x14, 0x15, 0x16, 0x17, 0x18, 0x19, 0x1a, 0x1b, 0x1c, 0x1d, 0x1e, 0x1f]
     [0x5c, 0x84, 0xf1, 0xf6, 0xe8, 0xfb, 0x6f, 0xa2, 0xc2, 0x88, 0xec, 0xb4, 0x07, 0x82, 0x06, 0x48]
   = [0x7f, 0x7c, 0x7d, 0x7b, 0x11, 0xf5, 0xf9, 0x94, 0x3f, 0x19, 0xa1, 0x50, 0x1d, 0x3f, 0x12, 0x70]"
  using aes256_block_inverse[of "[0x7f, 0x7c, 0x7d, 0x7b, 0x11, 0xf5, 0xf9, 0x94, 0x3f, 0x19, 0xa1, 0x50, 0x1d, 0x3f, 0x12, 0x70]"
      "[0x00, 0x01, 0x02, 0x03, 0x04, 0x05, 0x06, 0x07, 0x08, 0x09, 0x0a, 0x0b, 0x0c, 0x0d, 0x0e, 0x0f,
      0x10, 0x11, 0x12, 0x13, 0x14, 0x15, 0x16, 0x17, 0x18, 0x19, 0x1a, 0x1b, 0x1c, 0x1d, 0x1e, 0x1f]"]
  by (simp add: demo_block2)

lemma demo_block3_inverse:
  "aes256_decrypt_block
     [0x00, 0x01, 0x02, 0x03, 0x04, 0x05, 0x06, 0x07, 0x08, 0x09, 0x0a, 0x0b, 0x0c, 0x0d, 0x0e, 0x0f,
      0x10, 0x11, 0x12, 0x13, 0x14, 0x15, 0x16, 0x17, 0x18, 0x19, 0x1a, 0x1b, 0x1c, 0x1d, 0x1e, 0x1f]
     [0xa8, 0x94, 0xf1, 0xad, 0xaa, 0xba, 0x14, 0x99, 0x11, 0x2b, 0x52, 0x38, 0xb9, 0xc1, 0xd1, 0xb5]
   = [0x64, 0xbd, 0x90, 0x94, 0x8b, 0x9f, 0x0a, 0xc4, 0xca, 0x80, 0xe4, 0xbc, 0x0f, 0x8a, 0x0e, 0x40]"
  using aes256_block_inverse[of "[0x64, 0xbd, 0x90, 0x94, 0x8b, 0x9f, 0x0a, 0xc4, 0xca, 0x80, 0xe4, 0xbc, 0x0f, 0x8a, 0x0e, 0x40]"
      "[0x00, 0x01, 0x02, 0x03, 0x04, 0x05, 0x06, 0x07, 0x08, 0x09, 0x0a, 0x0b, 0x0c, 0x0d, 0x0e, 0x0f,
      0x10, 0x11, 0x12, 0x13, 0x14, 0x15, 0x16, 0x17, 0x18, 0x19, 0x1a, 0x1b, 0x1c, 0x1d, 0x1e, 0x1f]"]
  by (simp add: demo_block3)

lemma demo_iv:
  "rand long_world 0 16 =
     [0x03, 0x0a, 0x11, 0x18, 0x1f, 0x26, 0x2d, 0x34, 0x3b, 0x42, 0x49, 0x50, 0x57, 0x5e, 0x65, 0x6c]"
  by (simp add: rand_def long_world_def demo_world_def upt_rec)

lemma demo_cbc:
  "cbc_encrypt aes256_encrypt_block (fromHex demo_key) (rand long_world 0 16)
     (pkcs7_pad (map byte_of_char ''API_KEY=0123456789abcdef0123456789abcdef''))
   = [0x47, 0x45, 0x1c, 0x19, 0x72, 0x91, 0x9c, 0xf2, 0x0f, 0x28, 0x93, 0x63, 0x29, 0x0a, 0x24, 0x47,
      0x5c, 0x84, 0xf1, 0xf6, 0xe8, 0xfb, 0x6f, 0xa2, 0xc2, 0x88, 0xec, 0xb4, 0x07, 0x82, 0x06, 0x48,
      0xa8, 0x94, 0xf1, 0xad, 0xaa, 0xba, 0x14, 0x99, 0x11, 0x2b, 0x52, 0x38, 0xb9, 0xc1, 0xd1, 0xb5]"
  by (simp add: fromHex_demo_key demo_iv pkcs7_pad_def byte_of_char_def cbc_encrypt.simps
        xor_bytes_def replicate_8 demo_block1 demo_block2 demo_block3)

lemma toHex_demo_iv:
  "toHex [0x03, 0x0a, 0x11, 0x18, 0x1f, 0x26, 0x2d, 0x34, 0x3b, 0x42, 0x49, 0x50, 0x57, 0x5e, 0x65, 0x6c]
   = ''030a11181f262d343b424950575e656c''"
  by (simp add: toHex_def hex_of_byte_def hexdigit_def)

lemma toHex_demo_ct:
  "toHex [0x47, 0x45, 0x1c, 0x19, 0x72, 0x91, 0x9c, 0xf2, 0x0f, 0x28, 0x93, 0x63, 0x29, 0x0a, 0x24, 0x47,
      0x5c, 0x84, 0xf1, 0xf6, 0xe8, 0xfb, 0x6f, 0xa2, 0xc2, 0x88, 0xec, 0xb4, 0x07, 0x82, 0x06, 0x48,
      0xa8, 0x94, 0xf1, 0xad, 0xaa, 0xba, 0x14, 0x99, 0x11, 0x2b, 0x52, 0x38, 0xb9, 0xc1, 0xd1, 0xb5]
   = ''47451c1972919cf20f289363290a24475c84f1f6e8fb6fa2c288ecb407820648a894f1adaaba1499112b5238b9c1d1b5''"
  by (simp add: toHex_def hex_of_byte_def hexdigit_def)

lemma toHex_demo_tampered:
  "toHex [0x46, 0x45, 0x1c, 0x19, 0x72, 0x91, 0x9c, 0xf2, 0x0f, 0x28, 0x93, 0x63, 0x29, 0x0a, 0x24, 0x47,
      0x5c, 0x84, 0xf1, 0xf6, 0xe8, 0xfb, 0x6f, 0xa2, 0xc2, 0x88, 0xec, 0xb4, 0x07, 0x82, 0x06, 0x48,
      0xa8, 0x94, 0xf1, 0xad, 0xaa, 0xba, 0x14, 0x99, 0x11, 0x2b, 0x52, 0x38, 0xb9, 0xc1, 0xd1, 0xb5]
   = ''46451c1972919cf20f289363290a24475c84f1f6e8fb6fa2c288ecb407820648a894f1adaaba1499112b5238b9c1d1b5''"
  by (simp add: toHex_def hex_of_byte_def hexdigit_def)

lemma long_world_encrypted:
  "files (snd (encryptFile aes256_encrypt_block envFilePath (Some demo_key) long_world)) envFilePath
     = Some \<lparr>content = Text ''030a11181f262d343b424950575e656c:47451c1972919cf20f289363290a24475c84f1f6e8fb6fa2c288ecb407820648a894f1adaaba1499112b5238b9c1d1b5'', mode = 384\<rparr>"
proof -
  have e: "files long_world envFilePath
             = Some \<lparr>content = Text ''API_KEY=0123456789abcdef0123456789abcdef'', mode = 384\<rparr>"
    by (simp add: long_world_def envFilePath_def)
  have s: "utf8_sanitize ''API_KEY=0123456789abcdef0123456789abcdef'' = ''API_KEY=0123456789abcdef0123456789abcdef''"
    by (simp add: utf8_sanitize_def)
  have d: "drawn long_world = 0"
    by (simp add: long_world_def demo_world_def)
  have r: "map (entropy long_world) [0..<16] = rand long_world 0 16"
    by (simp add: rand_def d)
  have v: "envelope aes256_encrypt_block (fromHex demo_key) (rand long_world 0 16)
             ''API_KEY=0123456789abcdef0123456789abcdef''
           = ''030a11181f262d343b424950575e656c:47451c1972919cf20f289363290a24475c84f1f6e8fb6fa2c288ecb407820648a894f1adaaba1499112b5238b9c1d1b5''"
    by (simp only: envelope_def cipher_update_final_def fst_conv snd_conv demo_cbc,
        simp only: demo_iv toHex_demo_iv toHex_demo_ct, simp)
  show ?thesis
    by (simp add: encryptFile_run[OF e length_demo_key] d r s v)
qed

lemma tampered_world_one_digit:
  "files tampered_world envFilePath
     = Some \<lparr>content = Text ((''030a11181f262d343b424950575e656c:47451c1972919cf20f289363290a24475c84f1f6e8fb6fa2c288ecb407820648a894f1adaaba1499112b5238b9c1d1b5'')[34 := CHR ''6'']), mode = 384\<rparr>"
  by (simp add: tampered_world_def envFilePath_def)

lemma demo_cbc_tampered:
  "cbc_decrypt aes256_decrypt_block (fromHex demo_key)
     [0x03, 0x0a, 0x11, 0x18, 0x1f, 0x26, 0x2d, 0x34, 0x3b, 0x42, 0x49, 0x50, 0x57, 0x5e, 0x65, 0x6c]
     [0x46, 0x45, 0x1c, 0x19, 0x72, 0x91, 0x9c, 0xf2, 0x0f, 0x28, 0x93, 0x63, 0x29, 0x0a, 0x24, 0x47,
      0x5c, 0x84, 0xf1, 0xf6, 0xe8, 0xfb, 0x6f, 0xa2, 0xc2, 0x88, 0xec, 0xb4, 0x07, 0x82, 0x06, 0x48,
      0xa8, 0x94, 0xf1, 0xad, 0xaa, 0xba, 0x14, 0x99, 0x11, 0x2b, 0x52, 0x38, 0xb9, 0xc1, 0xd1, 0xb5]
   = [0x1d, 0x68, 0xd5, 0xeb, 0x13, 0xbc, 0xef, 0x13, 0xb5, 0x0c, 0x3c, 0xa9, 0xd5, 0x07, 0x2e, 0xfd,
      0x39, 0x39, 0x61, 0x62, 0x63, 0x64, 0x65, 0x66, 0x30, 0x31, 0x32, 0x33, 0x34, 0x35, 0x36, 0x37,
      0x38, 0x39, 0x61, 0x62, 0x63, 0x64, 0x65, 0x66, 0x08, 0x08, 0x08, 0x08, 0x08, 0x08, 0x08, 0x08]"
  by (simp add: fromHex_demo_key cbc_decrypt.simps xor_bytes_def demo_block1_tampered
        demo_block2_inverse demo_block3_inverse)

lemma demo_unpad:
  "pkcs7_unpad [0x1d, 0x68, 0xd5, 0xeb, 0x13, 0xbc, 0xef, 0x13, 0xb5, 0x0c, 0x3c, 0xa9, 0xd5, 0x07, 0x2e, 0xfd,
      0x39, 0x39, 0x61, 0x62, 0x63, 0x64, 0x65, 0x66, 0x30, 0x31, 0x32, 0x33, 0x34, 0x35, 0x36, 0x37,
      0x38, 0x39, 0x61, 0x62, 0x63, 0x64, 0x65, 0x66, 0x08, 0x08, 0x08, 0x08, 0x08, 0x08, 0x08, 0x08]
   = Some [0x1d, 0x68, 0xd5, 0xeb, 0x13, 0xbc, 0xef, 0x13, 0xb5, 0x0c, 0x3c, 0xa9, 0xd5, 0x07, 0x2e, 0xfd,
      0x39, 0x39, 0x61, 0x62, 0x63, 0x64, 0x65, 0x66, 0x30, 0x31, 0x32, 0x33, 0x34, 0x35, 0x36, 0x37,
      0x38, 0x39, 0x61, 0x62, 0x63, 0x64, 0x65, 0x66]"
  by (simp add: pkcs7_unpad_def replicate_8)

lemma demo_decoded:
  "utf8_sanitize (map char_of_byte [0x1d, 0x68, 0xd5, 0xeb, 0x13, 0xbc, 0xef, 0x13, 0xb5, 0x0c, 0x3c, 0xa9, 0xd5, 0x07, 0x2e, 0xfd,
      0x39, 0x39, 0x61, 0x62, 0x63, 0x64, 0x65, 0x66, 0x30, 0x31, 0x32, 0x33, 0x34, 0x35, 0x36, 0x37,
      0x38, 0x39, 0x61, 0x62, 0x63, 0x64, 0x65, 0x66])
   = [CHR 0x1D, CHR 0x68, CHR 0xEF, CHR 0xBF, CHR 0xBD, CHR 0xEF, CHR 0xBF, CHR 0xBD,
      CHR 0x13, CHR 0xEF, CHR 0xBF, CHR 0xBD, CHR 0xEF, CHR 0xBF, CHR 0xBD, CHR 0x13,
      CHR 0xEF, CHR 0xBF, CHR 0xBD, CHR 0x0C, CHR 0x3C, CHR 0xEF, CHR 0xBF, CHR 0xBD,
      CHR 0xEF, CHR 0xBF, CHR 0xBD, CHR 0x07, CHR 0x2E, CHR 0xEF, CHR 0xBF, CHR 0xBD]
     @ ''99abcdef0123456789abcdef''"
  by (simp add: utf8_sanitize_def REPLACEMENT_def char_of_byte_def char_of_eq_iff)

lemma tampered_world_decrypt:
  "decryptFile aes256_decrypt_block envFilePath (Some demo_key) tampered_world =
     (Inr (),
      tampered_world\<lparr>files := (files tampered_world)(envFilePath \<mapsto>
          \<lparr>content = Text ([CHR 0x1D, CHR 0x68, CHR 0xEF, CHR 0xBF, CHR 0xBD, CHR 0xEF, CHR 0xBF, CHR 0xBD,
      CHR 0x13, CHR 0xEF, CHR 0xBF, CHR 0xBD, CHR 0xEF, CHR 0xBF, CHR 0xBD, CHR 0x13,
      CHR 0xEF, CHR 0xBF, CHR 0xBD, CHR 0x0C, CHR 0x3C, CHR 0xEF, CHR 0xBF, CHR 0xBD,
      CHR 0xEF, CHR 0xBF, CHR 0xBD, CHR 0x07, CHR 0x2E, CHR 0xEF, CHR 0xBF, CHR 0xBD]
     @ ''99abcdef0123456789abcdef''), mode = 384\<rparr>),
        trace := trace tampered_world @ [EvExists envFilePath, EvRead envFilePath, EvDecipher,
           EvWrite envFilePath (Text ([CHR 0x1D, CHR 0x68, CHR 0xEF, CHR 0xBF, CHR 0xBD, CHR 0xEF, CHR 0xBF, CHR 0xBD,
      CHR 0x13, CHR 0xEF, CHR 0xBF, CHR 0xBD, CHR 0xEF, CHR 0xBF, CHR 0xBD, CHR 0x13,
      CHR 0xEF, CHR 0xBF, CHR 0xBD, CHR 0x0C, CHR 0x3C, CHR 0xEF, CHR 0xBF, CHR 0xBD,
      CHR 0xEF, CHR 0xBF, CHR 0xBD, CHR 0x07, CHR 0x2E, CHR 0xEF, CHR 0xBF, CHR 0xBD]
     @ ''99abcdef0123456789abcdef''))]\<rparr>)"
proof -
  let ?iv = "[0x03, 0x0a, 0x11, 0x18, 0x1f, 0x26, 0x2d, 0x34, 0x3b, 0x42, 0x49, 0x50, 0x57, 0x5e, 0x65, 0x6c] :: byte list"
  let ?c = "[0x46, 0x45, 0x1c, 0x19, 0x72, 0x91, 0x9c, 0xf2, 0x0f, 0x28, 0x93, 0x63, 0x29, 0x0a, 0x24, 0x47,
      0x5c, 0x84, 0xf1, 0xf6, 0xe8, 0xfb, 0x6f, 0xa2, 0xc2, 0x88, 0xec, 0xb4, 0x07, 0x82, 0x06, 0x48,
      0xa8, 0x94, 0xf1, 0xad, 0xaa, 0xba, 0x14, 0x99, 0x11, 0x2b, 0x52, 0x38, 0xb9, 0xc1, 0xd1, 0xb5] :: byte list"
  let ?f = "\<lparr>content = Text ''030a11181f262d343b424950575e656c:46451c1972919cf20f289363290a24475c84f1f6e8fb6fa2c288ecb407820648a894f1adaaba1499112b5238b9c1d1b5'', mode = 384\<rparr>"
  have e: "files tampered_world envFilePath = Some ?f"
    by (simp add: tampered_world_def envFilePath_def)
  have c: "content ?f = Text (toHex ?iv @ CHR '':'' # toHex ?c)"
    by (simp add: toHex_demo_iv toHex_demo_tampered)
  have even: "\<not> odd (js_length (toHex ?c))"
    by (simp add: js_length_ascii toHex_ascii length_toHex)
  have fin: "decipher_update_final aes256_decrypt_block (fromHex demo_key, ?iv) (Some (toHex ?c))
       = Inr ([CHR 0x1D, CHR 0x68, CHR 0xEF, CHR 0xBF, CHR 0xBD, CHR 0xEF, CHR 0xBF, CHR 0xBD,
      CHR 0x13, CHR 0xEF, CHR 0xBF, CHR 0xBD, CHR 0xEF, CHR 0xBF, CHR 0xBD, CHR 0x13,
      CHR 0xEF, CHR 0xBF, CHR 0xBD, CHR 0x0C, CHR 0x3C, CHR 0xEF, CHR 0xBF, CHR 0xBD,
      CHR 0xEF, CHR 0xBF, CHR 0xBD, CHR 0x07, CHR 0x2E, CHR 0xEF, CHR 0xBF, CHR 0xBD]
     @ ''99abcdef0123456789abcdef'')"
    using even
    by (simp add: decipher_update_final_def fromHex_toHex demo_cbc_tampered demo_unpad
          demo_decoded del: list.map)
  have liv: "length ?iv = 16"
    by simp
  show ?thesis
    using decryptFile_hex_run[OF e c liv length_demo_key fin] by simp
qed

lemma tampered_world_envelope:
  "files tampered_world envFilePath =
    Some \<lparr>content = Text (toHex (rand long_world 0 16) @ '':'' @
           toHex ((cbc_encrypt aes256_encrypt_block (fromHex demo_key) (rand long_world 0 16)
                    (pkcs7_pad (map byte_of_char ''API_KEY=0123456789abcdef0123456789abcdef'')))[0 := 0x46])),
          mode = 384\<rparr>"
  by (simp only: demo_cbc,
      simp only: demo_iv list_update_code toHex_demo_iv toHex_demo_tampered,
      simp add: tampered_world_def envFilePath_def)

theorem tampered_first_block_accepted_witness:
  "cipher_ok aes256_encrypt_block aes256_decrypt_block \<and> length (fromHex demo_key) = 32
   \<and> length (rand long_world 0 16) = 16
   \<and> 32 \<le> length ''API_KEY=0123456789abcdef0123456789abcdef'' \<and> (0::nat) < 16
   \<and> files tampered_world envFilePath =
        Some \<lparr>content = Text (toHex (rand long_world 0 16) @ '':'' @
           toHex ((cbc_encrypt aes256_encrypt_block (fromHex demo_key) (rand long_world 0 16)
                    (pkcs7_pad (map byte_of_char ''API_KEY=0123456789abcdef0123456789abcdef'')))[0 := 0x46])),
          mode = 384\<rparr>
   \<and> (\<exists>q. pkcs7_unpad (cbc_decrypt aes256_decrypt_block (fromHex demo_key) (rand long_world 0 16)
                 ((cbc_encrypt aes256_encrypt_block (fromHex demo_key) (rand long_world 0 16)
                    (pkcs7_pad (map byte_of_char ''API_KEY=0123456789abcdef0123456789abcdef'')))[0 := 0x46]))
               = Some q
           \<and> fst (decryptFile aes256_decrypt_block envFilePath (Some demo_key) tampered_world) = Inr ()
           \<and> files (snd (decryptFile aes256_decrypt_block envFilePath (Some demo_key) tampered_world))
                 envFilePath
               = Some \<lparr>content = Text (utf8_sanitize (map char_of_byte q)), mode = 384\<rparr>)"
proof -
  have d: "32 \<le> length ''API_KEY=0123456789abcdef0123456789abcdef''"
    by simp
  have j: "(0::nat) < 16"
    by simp
  have c: "content \<lparr>content = Text (toHex (rand long_world 0 16) @ '':'' @
           toHex ((cbc_encrypt aes256_encrypt_block (fromHex demo_key) (rand long_world 0 16)
                    (pkcs7_pad (map byte_of_char ''API_KEY=0123456789abcdef0123456789abcdef'')))[0 := 0x46])),
          mode = 384\<rparr>
     = Text (toHex (rand long_world 0 16) @ '':'' @
           toHex ((cbc_encrypt aes256_encrypt_block (fromHex demo_key) (rand long_world 0 16)
                    (pkcs7_pad (map byte_of_char ''API_KEY=0123456789abcdef0123456789abcdef'')))[0 := 0x46]))"
    by (rule file_entry.select_convs)
  from tampered_first_block_accepted[OF aes256_ok length_demo_key length_rand d j
         tampered_world_envelope c]
  obtain q where q: "pkcs7_unpad (cbc_decrypt aes256_decrypt_block (fromHex demo_key) (rand long_world 0 16)
                 ((cbc_encrypt aes256_encrypt_block (fromHex demo_key) (rand long_world 0 16)
                    (pkcs7_pad (map byte_of_char ''API_KEY=0123456789abcdef0123456789abcdef'')))[0 := 0x46]))
               = Some q"
    and r: "decryptFile aes256_decrypt_block envFilePath (Some demo_key) tampered_world =
               (Inr (),
                tampered_world\<lparr>files := (files tampered_world)(envFilePath \<mapsto>
                     \<lparr>content = Text (toHex (rand long_world 0 16) @ '':'' @
           toHex ((cbc_encrypt aes256_encrypt_block (fromHex demo_key) (rand long_world 0 16)
                    (pkcs7_pad (map byte_of_char ''API_KEY=0123456789abcdef0123456789abcdef'')))[0 := 0x46])),
          mode = 384\<rparr>\<lparr>content := Text (utf8_sanitize (map char_of_byte q))\<rparr>),
                  trace := trace tampered_world @ [EvExists envFilePath, EvRead envFilePath, EvDecipher,
                             EvWrite envFilePath (Text (utf8_sanitize (map char_of_byte q)))]\<rparr>)"
    by blast
  have "fst (decryptFile aes256_decrypt_block envFilePath (Some demo_key) tampered_world) = Inr ()"
    by (simp only: r fst_conv)
  moreover have "files (snd (decryptFile aes256_decrypt_block envFilePath (Some demo_key) tampered_world))
                 envFilePath
               = Some \<lparr>content = Text (utf8_sanitize (map char_of_byte q)), mode = 384\<rparr>"
    by (simp only: r snd_conv) simp
  ultimately show ?thesis
    using q aes256_ok length_demo_key length_rand[of long_world 0 16] d j
      tampered_world_envelope
    by blast
qed

text \<open>
  The claim as stated, that a changed ciphertext byte makes decrypt fail: the envelope
  of the 40-byte file of \<open>long_world\<close> under \<open>demo_key\<close> and AES, with the second
  hexadecimal digit of its ciphertext changed from 7 to 6, is accepted by decrypt, which
  writes a text that differs from the original in the first 17 bytes: the first block
  is garbled, the byte after it is 9 in place of 8, and the rest is as it was.
\<close>

theorem tampered_envelope_accepted:
  "files (snd (encryptFile aes256_encrypt_block envFilePath (Some demo_key) long_world)) envFilePath
     = Some \<lparr>content = Text ''030a11181f262d343b424950575e656c:47451c1972919cf20f289363290a24475c84f1f6e8fb6fa2c288ecb407820648a894f1adaaba1499112b5238b9c1d1b5'', mode = 384\<rparr>
   \<and> files tampered_world envFilePath
     = Some \<lparr>content = Text ((''030a11181f262d343b424950575e656c:47451c1972919cf20f289363290a24475c84f1f6e8fb6fa2c288ecb407820648a894f1adaaba1499112b5238b9c1d1b5'')[34 := CHR ''6'']), mode = 384\<rparr>
   \<and> fst (decryptFile aes256_decrypt_block envFilePath (Some demo_key) tampered_world) = Inr ()
   \<and> files (snd (decryptFile aes256_decrypt_block envFilePath (Some demo_key) tampered_world))
         envFilePath
     = Some \<lparr>content = Text ([CHR 0x1D, CHR 0x68, CHR 0xEF, CHR 0xBF, CHR 0xBD, CHR 0xEF, CHR 0xBF, CHR 0xBD,
      CHR 0x13, CHR 0xEF, CHR 0xBF, CHR 0xBD, CHR 0xEF, CHR 0xBF, CHR 0xBD, CHR 0x13,
      CHR 0xEF, CHR 0xBF, CHR 0xBD, CHR 0x0C, CHR 0x3C, CHR 0xEF, CHR 0xBF, CHR 0xBD,
      CHR 0xEF, CHR 0xBF, CHR 0xBD, CHR 0x07, CHR 0x2E, CHR 0xEF, CHR 0xBF, CHR 0xBD]
     @ ''99abcdef0123456789abcdef''), mode = 384\<rparr>"
  using long_world_encrypted tampered_world_one_digit
  by (simp add: tampered_world_decrypt)
subsection \<open>Encrypt, rotate, decrypt\<close>

lemma main_run:
  "main_try E D a w = (Inr u, w') \<Longrightarrow> a \<in> set [''encrypt'', ''decrypt'', ''rotate''] \<Longrightarrow>
   main E D [a] w = w'"
  by (simp add: main_def)

lemma keyPath_of_frame:
  "cwd w' = cwd w \<Longrightarrow> homedir w' = homedir w \<Longrightarrow> keyPath_of w' = keyPath_of w"
  by (simp add: keyPath_of_def getKeyDirectory_def getProjectName_def)

text \<open>
  Claim C1. After encrypting the plaintext \<open>secret=1\<close> with no key present, rotating
  and then decrypting with the new key should restore \<open>secret=1\<close>. The rotate branch of
  \<open>main\<close> calls \<open>encryptFile\<close> on the protected file as it is, which is the envelope
  of the first encryption: the envelope is encrypted once more under the new key, and
  the old key is overwritten. The decrypt that follows succeeds (it prints
  \<open>File decrypted.\<close>) and leaves in the protected file the first envelope, not the
  plaintext.
\<close>

theorem rotate_encrypts_the_envelope:
  assumes ok: "cipher_ok E D"
    and env: "files w envFilePath = Some f" "content f = Text ''secret=1''"
    and nokey: "files w (keyPath_of w) = None"
    and git: "git_config w ''user.name'' = Some n" "git_config w ''user.email'' = Some m"
  shows "files (main E D [''decrypt''] (main E D [''rotate''] (main E D [''encrypt''] w)))
           envFilePath
         = Some (f\<lparr>content := Text (envelope E (rand w 16 32) (rand w 48 16) ''secret=1'')\<rparr>)
       \<and> files (main E D [''encrypt''] w) envFilePath
         = Some (f\<lparr>content := Text (envelope E (rand w 16 32) (rand w 48 16) ''secret=1'')\<rparr>)
       \<and> envelope E (rand w 16 32) (rand w 48 16) ''secret=1'' \<noteq> ''secret=1''
       \<and> last (trace (main E D [''decrypt''] (main E D [''rotate''] (main E D [''encrypt''] w))))
         = EvLog ''File decrypted.''"
proof -
  obtain cs where kp: "keyPath_of w = Abs cs"
    using keyPath_of_eq by blast
  define X1 where "X1 = envelope E (rand w 16 32) (rand w 48 16) ''secret=1''"
  have sanX1: "utf8_sanitize X1 = X1"
    unfolding X1_def by (rule utf8_sanitize_ascii) (rule envelope_ascii)
  have san: "utf8_sanitize (bytes_of (content f)) = ''secret=1''"
    by (simp add: env(2) utf8_sanitize_def)
  \<comment> \<open>the first run: encrypt\<close>
  from main_encrypt_fresh[OF env(1) nokey[unfolded kp] git, of E]
  obtain w1 where r1: "main_encrypt E (Abs cs) w = (Inr (), w1)"
    and f1: "files w1 envFilePath = Some (f\<lparr>content := Text X1\<rparr>)"
    and fr1: "cwd w1 = cwd w" "homedir w1 = homedir w" "git_config w1 = git_config w"
    by (auto simp add: san X1_def envFilePath_def metadataFilePath_def)
  have m1: "main E D [''encrypt''] w = w1"
    by (rule main_run[where u = "()"]) (simp_all add: main_try_def kp r1)
  have kp1: "keyPath_of w1 = Abs cs"
    using keyPath_of_frame[OF fr1(1,2)] kp by simp
  \<comment> \<open>the second run: rotate\<close>
  define k2 where "k2 = toHex (rand w1 0 32)"
  define t2 where "t2 = toHex (rand w1 32 16)"
  define X2 where "X2 = envelope E (rand w1 0 32) (rand w1 48 16) X1"
  from main_rotate_run[OF f1 git[folded fr1(3)], of E cs]
  obtain w2 where r2: "main_rotate E (Abs cs) w1 = (Inr (), w2)"
    and f2: "files w2 = (files w1)
        (Abs cs \<mapsto> write_entry (files w1 (Abs cs))
                      (Json [(''key'', k2), (''validation_token'', t2)]) 384 (umask w1),
         envFilePath \<mapsto> f\<lparr>content := Text X2\<rparr>,
         metadataFilePath \<mapsto> write_entry (files w1 metadataFilePath)
            (Json [(''last_encrypted_by'', n @ '' <'' @ m @ ''>''),
                   (''key_path'', path_string (Abs cs)),
                   (''key_status'', ''rotated''),
                   (''validation_token'', t2),
                   (''timestamp'', clock w1)]) 384 (umask w1))"
    and fr2: "cwd w2 = cwd w1" "homedir w2 = homedir w1"
    by (auto simp add: sanX1 k2_def t2_def X2_def)
  have m2: "main E D [''rotate''] w1 = w2"
    by (rule main_run[where u = "()"]) (simp_all add: main_try_def kp1 r2)
  have kp2: "keyPath_of w2 = Abs cs"
    using keyPath_of_frame[OF fr2] kp1 by simp
  \<comment> \<open>the third run: decrypt\<close>
  have key2: "files w2 (Abs cs) = Some (write_entry (files w1 (Abs cs))
                      (Json [(''key'', k2), (''validation_token'', t2)]) 384 (umask w1))"
    by (simp add: f2 envFilePath_def metadataFilePath_def)
  have meta2: "files w2 metadataFilePath = Some (write_entry (files w1 metadataFilePath)
            (Json [(''last_encrypted_by'', n @ '' <'' @ m @ ''>''),
                   (''key_path'', path_string (Abs cs)),
                   (''key_status'', ''rotated''),
                   (''validation_token'', t2),
                   (''timestamp'', clock w1)]) 384 (umask w1))"
    by (simp add: f2)
  have env2: "files w2 envFilePath = Some (f\<lparr>content := Text X2\<rparr>)"
    by (simp add: f2 envFilePath_def metadataFilePath_def)
  have lk2: "length (fromHex k2) = 32"
    by (simp add: k2_def fromHex_toHex length_rand)
  have c2: "content (f\<lparr>content := Text X2\<rparr>) = Text (envelope E (fromHex k2) (rand w1 48 16) X1)"
    by (simp add: X2_def k2_def fromHex_toHex)
  from main_decrypt_run[OF ok key2 content_write_entry _ lk2 meta2 content_write_entry _
         env2 c2 length_rand sanX1]
  obtain w3 where r3: "main_decrypt D (Abs cs) w2 = (Inr (), w3)"
    and f3: "files w3 = (files w2)(envFilePath \<mapsto> f\<lparr>content := Text X2, content := Text X1\<rparr>)"
    and l3: "last (trace w3) = EvLog ''File decrypted.''"
    by auto
  have m3: "main E D [''decrypt''] w2 = w3"
    by (rule main_run[where u = "()"]) (simp_all add: main_try_def kp2 r3)
  have ne: "X1 \<noteq> ''secret=1''"
    using length_envelope[of "rand w 48 16" E "rand w 16 32" "''secret=1''"]
    by (auto simp add: X1_def length_rand)
  show ?thesis
    using ne l3 f1 by (simp add: m1 m2 m3 f3 X1_def[symmetric])
qed

theorem rotate_encrypts_the_envelope_witness:
  "cipher_ok aes256_encrypt_block aes256_decrypt_block
   \<and> files demo_world envFilePath = Some \<lparr>content = Text ''secret=1'', mode = 420\<rparr>
   \<and> files demo_world (keyPath_of demo_world) = None
   \<and> git_config demo_world ''user.name'' = Some ''Ann''
   \<and> git_config demo_world ''user.email'' = Some ''ann@example.org''
   \<and> files (main aes256_encrypt_block aes256_decrypt_block [''decrypt''] (main aes256_encrypt_block aes256_decrypt_block [''rotate'']
              (main aes256_encrypt_block aes256_decrypt_block [''encrypt''] demo_world))) envFilePath
      = Some \<lparr>content = Text (envelope aes256_encrypt_block (rand demo_world 16 32) (rand demo_world 48 16) ''secret=1''),
              mode = 420\<rparr>
   \<and> envelope aes256_encrypt_block (rand demo_world 16 32) (rand demo_world 48 16) ''secret=1'' \<noteq> ''secret=1''"
proof -
  have e: "files demo_world envFilePath = Some \<lparr>content = Text ''secret=1'', mode = 420\<rparr>"
    by (simp add: demo_world_def envFilePath_def)
  have k: "files demo_world (keyPath_of demo_world) = None"
    by (simp add: keyPath_of_demo_world) (simp add: demo_world_def envFilePath_def)
  have g: "git_config demo_world ''user.name'' = Some ''Ann''"
    "git_config demo_world ''user.email'' = Some ''ann@example.org''"
    by (simp_all add: demo_world_def)
  show ?thesis
    using rotate_encrypts_the_envelope[OF aes256_ok e _ k g] aes256_ok e k g
    by simp
qed

end
